theory Spec2Isabelle
  imports Main "HOL-Library.Sublist"
begin

section \<open>Values and the outside world\<close>

text \<open>
  The program is a Node.js server (\<^verbatim>\<open>server.js\<close>) that talks to three upstream HTTP
  services through axios and answers through Express. Strings are byte lists (UTF-8);
  the two emoji of the source are written as their three and four bytes.
\<close>

text \<open>
  A value as JavaScript holds it after \<^verbatim>\<open>JSON.parse\<close>, plus \<^verbatim>\<open>undefined\<close>. The program
  never computes with numbers: a number is carried as the text that \<^verbatim>\<open>String\<close> gives for
  it. An object is the list of its own properties, each key once.
\<close>

datatype json =
    JUndefined
  | JNull
  | JBool bool
  | JNum string
  | JStr string
  | JArr "json list"
  | JObj "(string \<times> json) list"

datatype http_method = GET | POST

text \<open>
  An outbound axios request: \<^verbatim>\<open>req_auth\<close> is the \<^verbatim>\<open>auth: {username, password}\<close> option
  (HTTP Basic), \<^verbatim>\<open>req_headers\<close> the \<^verbatim>\<open>headers\<close> option, \<^verbatim>\<open>req_form\<close> the
  \<^verbatim>\<open>URLSearchParams\<close> body.
\<close>

record http_request =
  req_method :: http_method
  req_url :: string
  req_auth :: "(string \<times> string) option"
  req_headers :: "(string \<times> string) list"
  req_form :: "(string \<times> string) list"

record http_response =
  status :: nat
  data :: json

text \<open>What an upstream does with a request: it answers, or no answer arrives.\<close>

datatype http_outcome = Response nat json | NoResponse

type_synonym upstream = "http_request \<Rightarrow> http_outcome"

text \<open>
  What a step of the chain can throw: an axios error (\<^verbatim>\<open>err.response\<close> is set when the
  upstream answered with a status outside 200..299), or a \<^verbatim>\<open>TypeError\<close> of the
  JavaScript engine.
\<close>

datatype error = AxiosError "http_response option" | TypeError

type_synonym environment = "string \<rightharpoonup> string"

text \<open>The credentials of the bound destination service instance (\<^verbatim>\<open>services.dest\<close>).\<close>

record credentials =
  url :: string
  uri :: string
  clientid :: string
  clientsecret :: string

text \<open>The module-level constants that exist once startup has passed.\<close>

record server =
  destService :: credentials
  PORT :: json

datatype log_arg = LStr string | LMessage error | LNum nat | LJson json

datatype log_entry = ConsoleError "log_arg list" | ConsoleLog "log_arg list"

text \<open>
  An Express response: \<^verbatim>\<open>res.send\<close> of a string, \<^verbatim>\<open>res.json\<close> of a value, or the page
  Express itself sends when no route matches.
\<close>

datatype reply_body = Sent string | Json json | NoRoute

record http_reply =
  res_status :: nat
  res_body :: reply_body

text \<open>What handling one request does: the reply, the console output, the outbound calls in order.\<close>

record outcome =
  reply :: http_reply
  logs :: "log_entry list"
  calls :: "http_request list"

section \<open>JavaScript primitives the program uses\<close>

fun join :: "string \<Rightarrow> string list \<Rightarrow> string" where
  "join sep [] = []"
| "join sep [x] = x"
| "join sep (x # y # ys) = x @ sep @ join sep (y # ys)"

text \<open>\<^verbatim>\<open>String(v)\<close>, as a template literal applies it.\<close>

fun js_string :: "json \<Rightarrow> string" where
  "js_string JUndefined = ''undefined''"
| "js_string JNull = ''null''"
| "js_string (JBool b) = (if b then ''true'' else ''false'')"
| "js_string (JNum s) = s"
| "js_string (JStr s) = s"
| "js_string (JArr xs) =
     join '','' (map (\<lambda>x. if x = JNull \<or> x = JUndefined then [] else js_string x) xs)"
| "js_string (JObj kvs) = ''[object Object]''"

text \<open>
  The property read \<^verbatim>\<open>v.k\<close> for a key that no built-in prototype defines (the program
  reads \<^verbatim>\<open>access_token\<close>, \<^verbatim>\<open>destinationConfiguration\<close> and \<^verbatim>\<open>URL\<close>): it throws on
  \<^verbatim>\<open>undefined\<close> and \<^verbatim>\<open>null\<close>, and gives \<^verbatim>\<open>undefined\<close> where the property is missing.
\<close>

fun get_prop :: "json \<Rightarrow> string \<Rightarrow> error + json" where
  "get_prop JUndefined k = Inl TypeError"
| "get_prop JNull k = Inl TypeError"
| "get_prop (JObj kvs) k = Inr (case map_of kvs k of Some v \<Rightarrow> v | None \<Rightarrow> JUndefined)"
| "get_prop v k = Inr JUndefined"

text \<open>
  \<^verbatim>\<open>s.replace(/\/$/, "")\<close>: the pattern matches one slash at the end of the input.
\<close>

definition replace_trailing_slash :: "string \<Rightarrow> string" where
  "replace_trailing_slash s = (if s \<noteq> [] \<and> last s = CHR ''/'' then butlast s else s)"

text \<open>
  The method call \<^verbatim>\<open>v.replace(/\/$/, "")\<close> on a value: only a string has the method.
\<close>

fun call_replace :: "json \<Rightarrow> error + string" where
  "call_replace (JStr s) = Inr (replace_trailing_slash s)"
| "call_replace v = Inl TypeError"

text \<open>
  axios resolves with the response when its status is in 200..299 and rejects otherwise.
\<close>

definition axios :: "upstream \<Rightarrow> http_request \<Rightarrow> error + http_response" where
  "axios up req =
     (case up req of
        NoResponse \<Rightarrow> Inl (AxiosError None)
      | Response st d \<Rightarrow>
          if 200 \<le> st \<and> st < 300 then Inr \<lparr>status = st, data = d\<rparr>
          else Inl (AxiosError (Some \<lparr>status = st, data = d\<rparr>)))"

section \<open>The three helpers\<close>

text \<open>\<^verbatim>\<open>getDestinationToken\<close>, lines 27-41.\<close>

definition token_request :: "server \<Rightarrow> http_request" where
  "token_request srv =
     \<lparr>req_method = POST,
      req_url = url (destService srv) @ ''/oauth/token'',
      req_auth = Some (clientid (destService srv), clientsecret (destService srv)),
      req_headers = [],
      req_form = [(''grant_type'', ''client_credentials'')]\<rparr>"

definition getDestinationToken :: "server \<Rightarrow> upstream \<Rightarrow> (error + json) \<times> http_request list" where
  "getDestinationToken srv up =
     (case axios up (token_request srv) of
        Inl e \<Rightarrow> (Inl e, [token_request srv])
      | Inr response \<Rightarrow> (get_prop (data response) ''access_token'', [token_request srv]))"

text \<open>\<^verbatim>\<open>getDestinationConfig\<close>, lines 44-57. \<^verbatim>\<open>a || b\<close> is \<^verbatim>\<open>b\<close> when \<^verbatim>\<open>a\<close> is undefined or empty.\<close>

definition destinationName :: "environment \<Rightarrow> string" where
  "destinationName env =
     (case env ''DESTINATION_NAME'' of
        None \<Rightarrow> ''Products''
      | Some v \<Rightarrow> if v = [] then ''Products'' else v)"

definition config_request :: "server \<Rightarrow> environment \<Rightarrow> json \<Rightarrow> http_request" where
  "config_request srv env accessToken =
     \<lparr>req_method = GET,
      req_url = uri (destService srv) @ ''/destination-configuration/v1/destinations/''
                @ destinationName env,
      req_auth = None,
      req_headers = [(''Authorization'', ''Bearer '' @ js_string accessToken)],
      req_form = []\<rparr>"

definition getDestinationConfig ::
  "server \<Rightarrow> environment \<Rightarrow> upstream \<Rightarrow> json \<Rightarrow> (error + json) \<times> http_request list" where
  "getDestinationConfig srv env up accessToken =
     (case axios up (config_request srv env accessToken) of
        Inl e \<Rightarrow> (Inl e, [config_request srv env accessToken])
      | Inr response \<Rightarrow>
          (get_prop (data response) ''destinationConfiguration'',
           [config_request srv env accessToken]))"

text \<open>\<^verbatim>\<open>fetchODataEntity\<close>, lines 60-77.\<close>

definition odataUrl :: "string \<Rightarrow> string \<Rightarrow> string" where
  "odataUrl baseUrl entity = baseUrl @ ''/'' @ entity @ ''?$format=json''"

definition data_request :: "string \<Rightarrow> http_request" where
  "data_request u =
     \<lparr>req_method = GET, req_url = u, req_auth = None, req_headers = [], req_form = []\<rparr>"

definition fetchODataEntity ::
  "server \<Rightarrow> environment \<Rightarrow> upstream \<Rightarrow> string \<Rightarrow> (error + json) \<times> http_request list" where
  "fetchODataEntity srv env up entity =
     (case getDestinationToken srv up of
        (Inl e, c1) \<Rightarrow> (Inl e, c1)
      | (Inr accessToken, c1) \<Rightarrow>
          (case getDestinationConfig srv env up accessToken of
             (Inl e, c2) \<Rightarrow> (Inl e, c1 @ c2)
           | (Inr destConfig, c2) \<Rightarrow>
               (case get_prop destConfig ''URL'' of
                  Inl e \<Rightarrow> (Inl e, c1 @ c2)
                | Inr u \<Rightarrow>
                    (case call_replace u of
                       Inl e \<Rightarrow> (Inl e, c1 @ c2)
                     | Inr baseUrl \<Rightarrow>
                         (case axios up (data_request (odataUrl baseUrl entity)) of
                            Inl e \<Rightarrow> (Inl e, c1 @ c2 @ [data_request (odataUrl baseUrl entity)])
                          | Inr result \<Rightarrow>
                              (Inr (data result),
                               c1 @ c2 @ [data_request (odataUrl baseUrl entity)]))))))"

section \<open>The routes\<close>

definition ALLOWED_ENTITIES :: "string list" where
  "ALLOWED_ENTITIES =
     [''Categories'', ''CustomerDemographics'', ''Customers'', ''Employees'',
      ''Order_Details'', ''Orders'', ''Products'', ''Regions'']"

text \<open>The second \<^verbatim>\<open>console.error\<close> of every catch block: \<^verbatim>\<open>if (err.response) ...\<close>.\<close>

definition remote_error :: "error \<Rightarrow> log_entry list" where
  "remote_error err =
     (case err of
        AxiosError (Some r) \<Rightarrow> [ConsoleError [LStr ''Remote error:'', LNum (status r), LJson (data r)]]
      | AxiosError None \<Rightarrow> []
      | TypeError \<Rightarrow> [])"

text \<open>\<^verbatim>\<open>app.get("/")\<close>, lines 94-98.\<close>

definition root_text :: string where
  "root_text = [CHR 0xE2, CHR 0x9C, CHR 0x85]
     @ '' Northwind Node app using Destination 'Products' is running. Call /products, /Customers or /odata/Products etc.''"

definition root_route :: outcome where
  "root_route = \<lparr>reply = \<lparr>res_status = 200, res_body = Sent root_text\<rparr>, logs = [], calls = []\<rparr>"

text \<open>\<^verbatim>\<open>app.get("/products")\<close>, lines 101-112.\<close>

definition products_route :: "server \<Rightarrow> environment \<Rightarrow> upstream \<Rightarrow> outcome" where
  "products_route srv env up =
     (case fetchODataEntity srv env up ''Products'' of
        (Inr d, cs) \<Rightarrow> \<lparr>reply = \<lparr>res_status = 200, res_body = Json d\<rparr>, logs = [], calls = cs\<rparr>
      | (Inl err, cs) \<Rightarrow>
          \<lparr>reply = \<lparr>res_status = 500, res_body = Sent ''Failed to fetch Products''\<rparr>,
           logs = ConsoleError [LStr ''Error in /products:'', LMessage err] # remote_error err,
           calls = cs\<rparr>)"

text \<open>\<^verbatim>\<open>app.get("/odata/:entity")\<close>, lines 115-139; \<^verbatim>\<open>entity\<close> is \<^verbatim>\<open>req.params.entity\<close>.\<close>

definition odata_entity_route :: "server \<Rightarrow> environment \<Rightarrow> upstream \<Rightarrow> string \<Rightarrow> outcome" where
  "odata_entity_route srv env up entity =
     (if entity \<notin> set ALLOWED_ENTITIES then
        \<lparr>reply = \<lparr>res_status = 400,
                  res_body = Sent (''Entity '' @ [CHR 0x27] @ entity @ [CHR 0x27]
                                   @ '' is not allowed. Allowed: ''
                                   @ join '', '' ALLOWED_ENTITIES)\<rparr>,
         logs = [], calls = []\<rparr>
      else
        (case fetchODataEntity srv env up entity of
           (Inr d, cs) \<Rightarrow> \<lparr>reply = \<lparr>res_status = 200, res_body = Json d\<rparr>, logs = [], calls = cs\<rparr>
         | (Inl err, cs) \<Rightarrow>
             \<lparr>reply = \<lparr>res_status = 500,
                       res_body = Sent (''Failed to fetch entity '' @ [CHR 0x27] @ entity
                                        @ [CHR 0x27])\<rparr>,
              logs = ConsoleError [LStr (''Error in /odata/'' @ entity @ '':''), LMessage err]
                     # remote_error err,
              calls = cs\<rparr>))"

text \<open>The handler that \<^verbatim>\<open>ALLOWED_ENTITIES.forEach\<close> registers for one name, lines 143-154.\<close>

definition shortcut_route :: "server \<Rightarrow> environment \<Rightarrow> upstream \<Rightarrow> string \<Rightarrow> outcome" where
  "shortcut_route srv env up entity =
     (case fetchODataEntity srv env up entity of
        (Inr d, cs) \<Rightarrow> \<lparr>reply = \<lparr>res_status = 200, res_body = Json d\<rparr>, logs = [], calls = cs\<rparr>
      | (Inl err, cs) \<Rightarrow>
          \<lparr>reply = \<lparr>res_status = 500, res_body = Sent (''Failed to fetch '' @ entity)\<rparr>,
           logs = ConsoleError [LStr (''Error in /'' @ entity @ '':''), LMessage err]
                  # remote_error err,
           calls = cs\<rparr>)"

section \<open>Express routing\<close>

text \<open>
  A route path is a list of segments, a literal or a named parameter; the path of a GET
  request is the list of its segments (\<^verbatim>\<open>/\<close> is the empty list). Express tries the routes
  in the order of registration and runs the first that matches; a parameter takes one
  non-empty segment. Whether literals are compared with case is the application setting
  \<^verbatim>\<open>case sensitive routing\<close>, which the program leaves alone: it is the argument \<open>cs\<close>
  below, and every result holds for both values.
\<close>

datatype segment = Lit string | Param

definition lower_char :: "char \<Rightarrow> char" where
  "lower_char c =
     (if 65 \<le> (of_char c :: nat) \<and> (of_char c :: nat) \<le> 90
      then char_of ((of_char c :: nat) + 32) else c)"

definition same_literal :: "bool \<Rightarrow> string \<Rightarrow> string \<Rightarrow> bool" where
  "same_literal cs s t = (if cs then s = t else map lower_char s = map lower_char t)"

fun match_path :: "bool \<Rightarrow> segment list \<Rightarrow> string list \<Rightarrow> string list option" where
  "match_path cs [] [] = Some []"
| "match_path cs (Lit s # ps) (x # xs) =
     (if same_literal cs s x then match_path cs ps xs else None)"
| "match_path cs (Param # ps) (x # xs) =
     (if x = [] then None else map_option (Cons x) (match_path cs ps xs))"
| "match_path cs ps xs = None"

type_synonym route = "segment list \<times> (string list \<Rightarrow> outcome)"

definition not_found :: outcome where
  "not_found = \<lparr>reply = \<lparr>res_status = 404, res_body = NoRoute\<rparr>, logs = [], calls = []\<rparr>"

fun dispatch :: "bool \<Rightarrow> route list \<Rightarrow> string list \<Rightarrow> outcome" where
  "dispatch cs [] path = not_found"
| "dispatch cs ((pat, handler) # rs) path =
     (case match_path cs pat path of
        Some params \<Rightarrow> handler params
      | None \<Rightarrow> dispatch cs rs path)"

text \<open>
  The routes in the order the source registers them (lines 94, 101, 115, 142). The
  handler of \<^verbatim>\<open>/odata/:entity\<close> is given the one parameter its path binds.
\<close>

definition routes :: "server \<Rightarrow> environment \<Rightarrow> upstream \<Rightarrow> route list" where
  "routes srv env up =
     [([], \<lambda>params. root_route),
      ([Lit ''products''], \<lambda>params. products_route srv env up),
      ([Lit ''odata'', Param],
         \<lambda>params. case params of
                     entity # rest \<Rightarrow> odata_entity_route srv env up entity
                   | [] \<Rightarrow> not_found)]
     @ map (\<lambda>entity. ([Lit entity], \<lambda>params. shortcut_route srv env up entity))
           ALLOWED_ENTITIES"

definition handle_get :: "bool \<Rightarrow> server \<Rightarrow> environment \<Rightarrow> upstream \<Rightarrow> string list \<Rightarrow> outcome" where
  "handle_get cs srv env up path = dispatch cs (routes srv env up) path"

section \<open>The process\<close>

text \<open>
  Startup, lines 6-24 and 158-160. Three library calls decide it, and what they do is
  given by the host the process starts on:
  \<^item> \<^verbatim>\<open>xsenv.loadEnv()\<close> (line 9) returns or throws;
  \<^item> \<^verbatim>\<open>xsenv.getServices({dest: {tag: "destination"}})\<close> (line 14) finds the credentials of
    the bound destination service, or throws (\<open>None\<close>);
  \<^item> \<^verbatim>\<open>app.listen(PORT)\<close> (line 158) binds what \<^verbatim>\<open>PORT\<close> names, or fails: a port out of
    range (\<^verbatim>\<open>PORT=99999\<close>) makes it throw on every host, a port already in use makes the
    server emit an error that nothing handles (\<open>listen_binds\<close> says which ports this host
    lets the process bind).
  Only \<^verbatim>\<open>getServices\<close> is inside a \<^verbatim>\<open>try\<close>: there \<^verbatim>\<open>process.exit(1)\<close> ends the process, so
  nothing after line 21 runs. A failure of the other two is an uncaught error, with which
  Node ends the process (\<open>Crashed\<close>; the exit status is 1 too) without any output of the
  program's own.
\<close>

record host =
  loadEnv_returns :: bool
  getServices :: "credentials option"
  listen_binds :: "json \<Rightarrow> bool"

datatype process = Exited nat | Crashed | Listening server

definition not_found_text :: string where
  "not_found_text = [CHR 0xE2, CHR 0x9D, CHR 0x8C]
     @ '' Destination service not found. Make sure a destination instance (e.g. 'destination-lite') is bound to this app.''"

text \<open>\<^verbatim>\<open>process.env.PORT || 5000\<close>, line 6.\<close>

definition read_PORT :: "environment \<Rightarrow> json" where
  "read_PORT env =
     (case env ''PORT'' of
        None \<Rightarrow> JNum ''5000''
      | Some p \<Rightarrow> if p = [] then JNum ''5000'' else JStr p)"

text \<open>
  \<^verbatim>\<open>app.listen(PORT)\<close>: Node refuses a port written in decimal digits that is above 65535,
  whatever the host; otherwise the host decides.
\<close>

definition digit_value :: "char \<Rightarrow> nat option" where
  "digit_value c =
     (if 48 \<le> (of_char c :: nat) \<and> (of_char c :: nat) \<le> 57
      then Some ((of_char c :: nat) - 48) else None)"

fun decimal :: "nat \<Rightarrow> string \<Rightarrow> nat option" where
  "decimal acc [] = Some acc"
| "decimal acc (c # cs) =
     (case digit_value c of None \<Rightarrow> None | Some d \<Rightarrow> decimal (10 * acc + d) cs)"

fun port_out_of_range :: "json \<Rightarrow> bool" where
  "port_out_of_range (JStr s) =
     (case decimal 0 s of None \<Rightarrow> False | Some n \<Rightarrow> s \<noteq> [] \<and> 65535 < n)"
| "port_out_of_range v = False"

definition app_listen :: "host \<Rightarrow> json \<Rightarrow> bool" where
  "app_listen h port = (if port_out_of_range port then False else listen_binds h port)"

definition startup :: "environment \<Rightarrow> host \<Rightarrow> process \<times> log_entry list" where
  "startup env h =
     (let port = read_PORT env
      in if \<not> loadEnv_returns h then (Crashed, [])
         else case getServices h of
           None \<Rightarrow> (Exited 1, [ConsoleError [LStr not_found_text]])
         | Some dest \<Rightarrow>
             if app_listen h port then
               (Listening \<lparr>destService = dest, PORT = port\<rparr>,
                [ConsoleLog [LStr ([CHR 0xF0, CHR 0x9F, CHR 0x9A, CHR 0x80]
                                   @ '' Server running on port '' @ js_string port)]])
             else (Crashed, []))"

text \<open>
  A request arrives with the environment and the upstreams as they are at that moment.
  A process that has ended serves nothing; a listening one answers and goes on listening.
\<close>

record event =
  ev_env :: environment
  ev_upstream :: upstream
  ev_path :: "string list"

fun step :: "bool \<Rightarrow> process \<Rightarrow> event \<Rightarrow> process \<times> outcome option" where
  "step cs (Exited c) ev = (Exited c, None)"
| "step cs Crashed ev = (Crashed, None)"
| "step cs (Listening srv) ev =
     (Listening srv, Some (handle_get cs srv (ev_env ev) (ev_upstream ev) (ev_path ev)))"

fun run :: "bool \<Rightarrow> process \<Rightarrow> event list \<Rightarrow> process \<times> outcome option list" where
  "run cs p [] = (p, [])"
| "run cs p (ev # evs) =
     (case step cs p ev of
        (p', out) \<Rightarrow> (case run cs p' evs of (p'', outs) \<Rightarrow> (p'', out # outs)))"

section \<open>Concrete inputs\<close>

text \<open>
  A server, upstreams that do not answer, refuse, or serve a destination, and environments
  with and without a destination name.
\<close>

definition example_server :: server where
  "example_server =
     \<lparr>destService = \<lparr>url = ''https://auth.example'', uri = ''https://dest.example'',
                      clientid = ''client'', clientsecret = ''secret''\<rparr>,
      PORT = JNum ''5000''\<rparr>"

definition unreachable_upstream :: upstream where
  "unreachable_upstream req = NoResponse"

definition unauthorized_upstream :: upstream where
  "unauthorized_upstream req = Response 401 (JStr ''Unauthorized'')"

definition destination_upstream :: "json \<Rightarrow> string \<Rightarrow> json \<Rightarrow> upstream" where
  "destination_upstream token_body base rows req =
     (if req_method req = POST then Response 200 token_body
      else if req_headers req \<noteq> [] then
        Response 200 (JObj [(''destinationConfiguration'',
                             JObj [(''Name'', JStr ''Products''), (''URL'', JStr base)])])
      else Response 200 rows)"

definition example_credentials :: credentials where
  "example_credentials = destService example_server"

definition example_token :: json where
  "example_token = JObj [(''access_token'', JStr ''t0ken''), (''expires_in'', JNum ''43199'')]"

definition example_rows :: json where
  "example_rows = JObj [(''d'', JObj [(''results'', JArr [])])]"


definition config_denied_upstream :: upstream where
  "config_denied_upstream req =
     (if req_method req = POST then Response 200 example_token
      else Response 403 (JStr ''Forbidden''))"

definition runtime_env :: environment where
  "runtime_env = [''DESTINATION_NAME'' \<mapsto> ''Northwind'']"

definition empty_name_env :: environment where
  "empty_name_env = [''DESTINATION_NAME'' \<mapsto> []]"

text \<open>
  Hosts: one where every port in range is free, one of the same kind without a
  destination binding, and one where the default port 5000 is taken.
\<close>

definition example_host :: host where
  "example_host =
     \<lparr>loadEnv_returns = True, getServices = Some example_credentials,
      listen_binds = (\<lambda>port. True)\<rparr>"

definition unbound_host :: host where
  "unbound_host =
     \<lparr>loadEnv_returns = True, getServices = None, listen_binds = (\<lambda>port. True)\<rparr>"

definition busy_host :: host where
  "busy_host =
     \<lparr>loadEnv_returns = True, getServices = Some example_credentials,
      listen_binds = (\<lambda>port. port \<noteq> JNum ''5000'')\<rparr>"

definition big_port_env :: environment where
  "big_port_env = [''PORT'' \<mapsto> ''99999'']"

text \<open>An upstream that gives a token and a destination and then fails the data call.\<close>

definition data_down_upstream :: upstream where
  "data_down_upstream req =
     (if req_method req = POST then Response 200 example_token
      else if req_headers req \<noteq> [] then
        Response 200 (JObj [(''destinationConfiguration'',
                             JObj [(''Name'', JStr ''Products''), (''URL'', JStr ''https://x'')])])
      else Response 500 (JObj [(''error'', JStr ''boom'')]))"

definition example_event :: event where
  "example_event = \<lparr>ev_env = Map.empty, ev_upstream = unreachable_upstream, ev_path = []\<rparr>"

section \<open>Routing facts\<close>

lemma lower_products: "map lower_char ''products'' = ''products''" by code_simp
lemma lower_allowed:
  "map (map lower_char) ALLOWED_ENTITIES =
     [''categories'', ''customerdemographics'', ''customers'', ''employees'',
      ''order_details'', ''orders'', ''products'', ''regions'']"
  by code_simp

lemma distinct_lower_allowed: "distinct (map (map lower_char) ALLOWED_ENTITIES)"
  unfolding lower_allowed by simp

lemma products_in_allowed: "''Products'' \<in> set ALLOWED_ENTITIES"
  by (simp add: ALLOWED_ENTITIES_def)

lemma lower_Products: "map lower_char ''Products'' = ''products''" by code_simp

lemma products_route_by_default: "same_literal False ''products'' ''Products''"
  by (simp only: same_literal_def lower_products lower_Products if_False)

lemma lower_Orders: "map lower_char ''Orders'' = ''orders''"
  by code_simp

lemma orders_is_not_products: "\<not> same_literal False ''products'' ''Orders''"
  by (simp add: same_literal_def lower_products lower_Orders)

lemma lowercase_products_not_allowed: "''products'' \<notin> set ALLOWED_ENTITIES"
  by (simp add: ALLOWED_ENTITIES_def)

lemma empty_not_allowed: "[] \<notin> set ALLOWED_ENTITIES"
  by (simp add: ALLOWED_ENTITIES_def)

lemma allowed_nonempty: "name \<in> set ALLOWED_ENTITIES \<Longrightarrow> name \<noteq> []"
  using empty_not_allowed by blast

lemma same_literal_refl: "same_literal cs s s"
  by (simp add: same_literal_def)

lemma same_literal_allowed:
  assumes "a \<in> set ALLOWED_ENTITIES" and "b \<in> set ALLOWED_ENTITIES"
  shows "same_literal cs a b \<longleftrightarrow> a = b"
proof (cases cs)
  case True
  then show ?thesis by (simp add: same_literal_def)
next
  case False
  have "inj_on (map lower_char) (set ALLOWED_ENTITIES)"
    using distinct_lower_allowed by (simp add: distinct_map)
  with assms have "map lower_char a = map lower_char b \<longleftrightarrow> a = b"
    by (simp add: inj_on_eq_iff)
  with False show ?thesis by (simp add: same_literal_def)
qed

lemma same_literal_products:
  assumes "name \<in> set ALLOWED_ENTITIES" and "same_literal cs ''products'' name"
  shows "\<not> cs \<and> name = ''Products''"
proof (cases cs)
  case True
  with assms lowercase_products_not_allowed show ?thesis by (simp add: same_literal_def)
next
  case False
  with assms(2) have "map lower_char ''Products'' = map lower_char name"
    by (simp only: same_literal_def lower_Products lower_products if_False)
  then have "same_literal False ''Products'' name" by (simp only: same_literal_def if_False)
  with assms(1) products_in_allowed have "''Products'' = name"
    by (simp only: same_literal_allowed)
  with False show ?thesis by simp
qed

lemma dispatch_shortcuts:
  "dispatch cs (map (\<lambda>entity. ([Lit entity], \<lambda>params. h entity)) names) [name] =
     (case find (\<lambda>entity. same_literal cs entity name) names of
        Some entity \<Rightarrow> h entity
      | None \<Rightarrow> not_found)"
  by (induction names) simp_all

lemma find_allowed:
  assumes "name \<in> set names" and "set names \<subseteq> set ALLOWED_ENTITIES"
  shows "find (\<lambda>entity. same_literal cs entity name) names = Some name"
  using assms
proof (induction names)
  case Nil
  then show ?case by simp
next
  case (Cons a names)
  show ?case
  proof (cases "a = name")
    case True
    have "same_literal cs a name" using True by (simp add: same_literal_refl)
    with True show ?thesis by simp
  next
    case False
    from Cons.prems have "a \<in> set ALLOWED_ENTITIES" and "name \<in> set ALLOWED_ENTITIES"
      by auto
    with False Cons.prems have "\<not> same_literal cs a name" and "name \<in> set names"
      by (simp_all add: same_literal_allowed)
    with Cons show ?thesis by simp
  qed
qed

lemma route_odata:
  "entity \<noteq> [] \<Longrightarrow> handle_get cs srv env up [''odata'', entity] = odata_entity_route srv env up entity"
  by (simp add: handle_get_def routes_def same_literal_refl)

lemma route_root: "handle_get cs srv env up [] = root_route"
  by (simp add: handle_get_def routes_def)

lemma route_products_lower: "handle_get cs srv env up [''products''] = products_route srv env up"
  by (simp add: handle_get_def routes_def same_literal_def)

lemma route_shortcut:
  assumes "name \<in> set ALLOWED_ENTITIES"
  shows "handle_get cs srv env up [name] =
           (if same_literal cs ''products'' name then products_route srv env up
            else shortcut_route srv env up name)"
proof -
  have "dispatch cs (map (\<lambda>entity. ([Lit entity], \<lambda>params. shortcut_route srv env up entity))
           ALLOWED_ENTITIES) [name] = shortcut_route srv env up name"
    using assms by (simp add: dispatch_shortcuts find_allowed)
  then show ?thesis
    by (simp add: handle_get_def routes_def)
qed

section \<open>The chain of calls, step by step\<close>

lemma token_calls: "snd (getDestinationToken srv up) = [token_request srv]"
  by (simp add: getDestinationToken_def split: sum.splits)

lemma token_2xx:
  "up (token_request srv) = Response st d \<Longrightarrow> 200 \<le> st \<Longrightarrow> st < 300 \<Longrightarrow>
   getDestinationToken srv up = (get_prop d ''access_token'', [token_request srv])"
  by (simp add: getDestinationToken_def axios_def)

lemma token_non_2xx:
  "up (token_request srv) = Response st d \<Longrightarrow> \<not> (200 \<le> st \<and> st < 300) \<Longrightarrow>
   getDestinationToken srv up =
     (Inl (AxiosError (Some \<lparr>status = st, data = d\<rparr>)), [token_request srv])"
  by (auto simp add: getDestinationToken_def axios_def)

lemma token_no_response:
  "up (token_request srv) = NoResponse \<Longrightarrow>
   getDestinationToken srv up = (Inl (AxiosError None), [token_request srv])"
  by (simp add: getDestinationToken_def axios_def)

lemma config_calls: "snd (getDestinationConfig srv env up tok) = [config_request srv env tok]"
  by (simp add: getDestinationConfig_def split: sum.splits)

lemma config_2xx:
  "up (config_request srv env tok) = Response st d \<Longrightarrow> 200 \<le> st \<Longrightarrow> st < 300 \<Longrightarrow>
   getDestinationConfig srv env up tok =
     (get_prop d ''destinationConfiguration'', [config_request srv env tok])"
  by (simp add: getDestinationConfig_def axios_def)

lemma config_non_2xx:
  "up (config_request srv env tok) = Response st d \<Longrightarrow> \<not> (200 \<le> st \<and> st < 300) \<Longrightarrow>
   getDestinationConfig srv env up tok =
     (Inl (AxiosError (Some \<lparr>status = st, data = d\<rparr>)), [config_request srv env tok])"
  by (auto simp add: getDestinationConfig_def axios_def)

lemma config_no_response:
  "up (config_request srv env tok) = NoResponse \<Longrightarrow>
   getDestinationConfig srv env up tok = (Inl (AxiosError None), [config_request srv env tok])"
  by (simp add: getDestinationConfig_def axios_def)

lemma fetch_token_failed:
  "getDestinationToken srv up = (Inl e, c) \<Longrightarrow> fetchODataEntity srv env up entity = (Inl e, c)"
  by (simp add: fetchODataEntity_def)

lemma fetch_config_failed:
  "getDestinationToken srv up = (Inr tok, c1) \<Longrightarrow>
   getDestinationConfig srv env up tok = (Inl e, c2) \<Longrightarrow>
   fetchODataEntity srv env up entity = (Inl e, c1 @ c2)"
  by (simp add: fetchODataEntity_def)

lemma fetch_data_call:
  "getDestinationToken srv up = (Inr tok, c1) \<Longrightarrow>
   getDestinationConfig srv env up tok = (Inr destConfig, c2) \<Longrightarrow>
   get_prop destConfig ''URL'' = Inr (JStr base) \<Longrightarrow>
   fetchODataEntity srv env up entity =
     (case axios up (data_request (odataUrl (replace_trailing_slash base) entity)) of
        Inl e \<Rightarrow> Inl e
      | Inr result \<Rightarrow> Inr (data result),
      c1 @ c2 @ [data_request (odataUrl (replace_trailing_slash base) entity)])"
  by (simp add: fetchODataEntity_def split: sum.splits)

lemma fetch_url_throws:
  "getDestinationToken srv up = (Inr tok, c1) \<Longrightarrow>
   getDestinationConfig srv env up tok = (Inr destConfig, c2) \<Longrightarrow>
   get_prop destConfig ''URL'' = Inl e \<Longrightarrow>
   fetchODataEntity srv env up entity = (Inl e, c1 @ c2)"
  by (simp add: fetchODataEntity_def)

lemma call_replace_not_string: "\<forall>s. u \<noteq> JStr s \<Longrightarrow> call_replace u = Inl TypeError"
  by (cases u) simp_all

lemma fetch_url_not_string:
  "getDestinationToken srv up = (Inr tok, c1) \<Longrightarrow>
   getDestinationConfig srv env up tok = (Inr destConfig, c2) \<Longrightarrow>
   get_prop destConfig ''URL'' = Inr u \<Longrightarrow> \<forall>s. u \<noteq> JStr s \<Longrightarrow>
   fetchODataEntity srv env up entity = (Inl TypeError, c1 @ c2)"
  by (simp add: fetchODataEntity_def call_replace_not_string)

lemma fetch_data_no_response:
  "getDestinationToken srv up = (Inr tok, c1) \<Longrightarrow>
   getDestinationConfig srv env up tok = (Inr destConfig, c2) \<Longrightarrow>
   get_prop destConfig ''URL'' = Inr (JStr base) \<Longrightarrow>
   up (data_request (replace_trailing_slash base @ ''/'' @ entity @ ''?$format=json'')) = NoResponse \<Longrightarrow>
   fetchODataEntity srv env up entity =
     (Inl (AxiosError None),
      c1 @ c2 @ [data_request (replace_trailing_slash base @ ''/'' @ entity @ ''?$format=json'')])"
  by (simp add: fetch_data_call odataUrl_def axios_def)

lemma fetch_data_non_2xx:
  "getDestinationToken srv up = (Inr tok, c1) \<Longrightarrow>
   getDestinationConfig srv env up tok = (Inr destConfig, c2) \<Longrightarrow>
   get_prop destConfig ''URL'' = Inr (JStr base) \<Longrightarrow>
   up (data_request (replace_trailing_slash base @ ''/'' @ entity @ ''?$format=json''))
     = Response st d \<Longrightarrow>
   \<not> (200 \<le> st \<and> st < 300) \<Longrightarrow>
   fetchODataEntity srv env up entity =
     (Inl (AxiosError (Some \<lparr>status = st, data = d\<rparr>)),
      c1 @ c2 @ [data_request (replace_trailing_slash base @ ''/'' @ entity @ ''?$format=json'')])"
  by (auto simp add: fetch_data_call odataUrl_def axios_def)

section \<open>The handlers on success and on failure\<close>

lemma shortcut_ok:
  "fetchODataEntity srv env up entity = (Inr d, c) \<Longrightarrow>
   shortcut_route srv env up entity =
     \<lparr>reply = \<lparr>res_status = 200, res_body = Json d\<rparr>, logs = [], calls = c\<rparr>"
  by (simp add: shortcut_route_def)

lemma shortcut_failed:
  "fetchODataEntity srv env up entity = (Inl err, c) \<Longrightarrow>
   shortcut_route srv env up entity =
     \<lparr>reply = \<lparr>res_status = 500, res_body = Sent (''Failed to fetch '' @ entity)\<rparr>,
      logs = ConsoleError [LStr (''Error in /'' @ entity @ '':''), LMessage err] # remote_error err,
      calls = c\<rparr>"
  by (simp add: shortcut_route_def)

lemma odata_ok:
  "entity \<in> set ALLOWED_ENTITIES \<Longrightarrow> fetchODataEntity srv env up entity = (Inr d, c) \<Longrightarrow>
   odata_entity_route srv env up entity =
     \<lparr>reply = \<lparr>res_status = 200, res_body = Json d\<rparr>, logs = [], calls = c\<rparr>"
  by (simp add: odata_entity_route_def)

lemma odata_failed:
  "entity \<in> set ALLOWED_ENTITIES \<Longrightarrow> fetchODataEntity srv env up entity = (Inl err, c) \<Longrightarrow>
   odata_entity_route srv env up entity =
     \<lparr>reply = \<lparr>res_status = 500,
               res_body = Sent (''Failed to fetch entity '' @ [CHR 0x27] @ entity @ [CHR 0x27])\<rparr>,
      logs = ConsoleError [LStr (''Error in /odata/'' @ entity @ '':''), LMessage err]
             # remote_error err,
      calls = c\<rparr>"
  by (simp add: odata_entity_route_def)

lemma products_ok:
  "fetchODataEntity srv env up ''Products'' = (Inr d, c) \<Longrightarrow>
   products_route srv env up =
     \<lparr>reply = \<lparr>res_status = 200, res_body = Json d\<rparr>, logs = [], calls = c\<rparr>"
  by (simp add: products_route_def)

lemma products_failed:
  "fetchODataEntity srv env up ''Products'' = (Inl err, c) \<Longrightarrow>
   products_route srv env up =
     \<lparr>reply = \<lparr>res_status = 500, res_body = Sent ''Failed to fetch Products''\<rparr>,
      logs = ConsoleError [LStr ''Error in /products:'', LMessage err] # remote_error err,
      calls = c\<rparr>"
  by (simp add: products_route_def)

lemma allow_list_text:
  "join '', '' ALLOWED_ENTITIES =
     ''Categories, CustomerDemographics, Customers, Employees, Order_Details, Orders, Products, Regions''"
  by (simp add: ALLOWED_ENTITIES_def)

lemma products_like_shortcut:
  "reply (products_route srv env up) = reply (shortcut_route srv env up ''Products'')
   \<and> calls (products_route srv env up) = calls (shortcut_route srv env up ''Products'')"
  by (simp add: products_route_def shortcut_route_def split: prod.splits sum.splits)

lemma shortcut_request:
  assumes "name \<in> set ALLOWED_ENTITIES"
  shows "reply (handle_get cs srv env up [name]) = reply (shortcut_route srv env up name)
         \<and> calls (handle_get cs srv env up [name]) = calls (shortcut_route srv env up name)"
proof (cases "same_literal cs ''products'' name")
  case True
  with assms have "name = ''Products''" using same_literal_products by blast
  with True assms show ?thesis
    by (simp only: route_shortcut if_True products_like_shortcut)
next
  case False
  with assms show ?thesis by (simp only: route_shortcut if_False simp_thms)
qed

section \<open>More on the chain and on failures\<close>

lemma fetch_second_call:
  assumes "getDestinationToken srv up = (Inr tok, c1)"
  shows "take 2 (snd (fetchODataEntity srv env up entity)) =
           [token_request srv, config_request srv env tok]"
proof -
  from assms token_calls [of srv up] have c1: "c1 = [token_request srv]" by simp
  obtain r c2 where g: "getDestinationConfig srv env up tok = (r, c2)"
    by (cases "getDestinationConfig srv env up tok")
  with config_calls [of srv env up tok] have c2: "c2 = [config_request srv env tok]" by simp
  show ?thesis
    using assms g unfolding c1 c2
    by (simp add: fetchODataEntity_def split: sum.splits)
qed


lemma fetch_without_configuration:
  assumes "getDestinationToken srv up = (Inr tok, c1)"
    and "getDestinationConfig srv env up tok = (Inr JUndefined, c2)"
  shows "fetchODataEntity srv env up entity = (Inl TypeError, c1 @ c2)"
  using assms by (simp add: fetchODataEntity_def)

lemma remote_error_response:
  "remote_error (AxiosError (Some \<lparr>status = st, data = d\<rparr>)) =
     [ConsoleError [LStr ''Remote error:'', LNum st, LJson d]]"
  by (simp add: remote_error_def)

lemma shortcut_request_failed:
  assumes "name \<in> set ALLOWED_ENTITIES" and "fetchODataEntity srv env up name = (Inl err, c)"
  shows "handle_get cs srv env up [name] =
           \<lparr>reply = \<lparr>res_status = 500, res_body = Sent (''Failed to fetch '' @ name)\<rparr>,
            logs = ConsoleError
                     [LStr (if same_literal cs ''products'' name then ''Error in /products:''
                            else ''Error in /'' @ name @ '':''), LMessage err]
                   # remote_error err,
            calls = c\<rparr>"
proof (cases "same_literal cs ''products'' name")
  case True
  with assms(1) have n: "name = ''Products''" using same_literal_products by blast
  from assms(2) have "products_route srv env up =
     \<lparr>reply = \<lparr>res_status = 500, res_body = Sent ''Failed to fetch Products''\<rparr>,
      logs = ConsoleError [LStr ''Error in /products:'', LMessage err] # remote_error err,
      calls = c\<rparr>"
    unfolding n by (rule products_failed)
  with True assms(1) show ?thesis by (simp add: route_shortcut n)
next
  case False
  with assms show ?thesis by (simp add: route_shortcut shortcut_failed)
qed

section \<open>Stripping the trailing slash\<close>

lemma strip_appended_slash: "replace_trailing_slash (b @ ''/'') = b"
  by (simp add: replace_trailing_slash_def)

lemma strip_no_slash: "\<not> suffix ''/'' b \<Longrightarrow> replace_trailing_slash b = b"
  by (cases b rule: rev_cases) (simp_all add: replace_trailing_slash_def)

lemma stripped_has_no_slash:
  assumes "\<not> suffix ''//'' base"
  shows "\<not> suffix ''/'' (replace_trailing_slash base)"
proof (cases "suffix ''/'' base")
  case True
  then obtain b where b: "base = b @ ''/''" by (auto simp: suffix_def)
  with assms have "\<not> suffix ''/'' b" by (auto simp: suffix_def)
  with b show ?thesis by (simp add: strip_appended_slash)
next
  case False
  then show ?thesis by (simp add: strip_no_slash)
qed

section \<open>The process over many requests\<close>

lemma run_exited: "run cs (Exited c) evs = (Exited c, replicate (length evs) None)"
  by (induction evs) simp_all

lemma run_crashed: "run cs Crashed evs = (Crashed, replicate (length evs) None)"
  by (induction evs) simp_all

lemma run_listening:
  "run cs (Listening srv) evs =
     (Listening srv,
      map (\<lambda>ev. Some (handle_get cs srv (ev_env ev) (ev_upstream ev) (ev_path ev))) evs)"
  by (induction evs) simp_all

lemma startup_bound:
  "fst (startup env h) = Listening srv \<Longrightarrow> getServices h = Some (destService srv)"
  by (auto simp add: startup_def Let_def split: if_splits option.splits)

lemma startup_cases:
  "fst (startup env h) =
     (if \<not> loadEnv_returns h then Crashed
      else case getServices h of
             None \<Rightarrow> Exited 1
           | Some dest \<Rightarrow>
               if app_listen h (read_PORT env)
               then Listening \<lparr>destService = dest, PORT = read_PORT env\<rparr>
               else Crashed)"
  by (simp add: startup_def Let_def split: option.splits)

lemma default_port_listens: "app_listen h (JNum ''5000'') = listen_binds h (JNum ''5000'')"
  by (simp add: app_listen_def)

lemma big_port_never_listens: "\<not> app_listen h (JStr ''99999'')"
  by (simp add: app_listen_def digit_value_def)

section \<open>The example upstream, evaluated\<close>

lemma example_token_acquired:
  "getDestinationToken example_server (destination_upstream example_token base rows) =
     (Inr (JStr ''t0ken''), [token_request example_server])"
  by (simp add: getDestinationToken_def axios_def destination_upstream_def token_request_def
      example_token_def)

lemma example_config_resolved:
  "getDestinationConfig example_server env (destination_upstream tb base rows) tok =
     (Inr (JObj [(''Name'', JStr ''Products''), (''URL'', JStr base)]),
      [config_request example_server env tok])"
  by (simp add: getDestinationConfig_def axios_def destination_upstream_def config_request_def)

section \<open>The claims\<close>

text \<open>
  C1, as amended. For every allowed name, \<^verbatim>\<open>GET /odata/{name}\<close> and \<^verbatim>\<open>GET /{name}\<close> make
  the same outbound calls, those of \<^verbatim>\<open>fetchODataEntity(name)\<close>. When the fetch succeeds
  both reply 200 with the same JSON value. When it fails both reply 500 with a text, but
  not the same text: \<^verbatim>\<open>Failed to fetch entity '{name}'\<close> for the generic route and
  \<^verbatim>\<open>Failed to fetch {name}\<close> for the shortcut.
\<close>

theorem generic_and_shortcut_routes_agree:
  assumes "name \<in> set ALLOWED_ENTITIES"
  shows "calls (handle_get cs srv env up [''odata'', name]) = snd (fetchODataEntity srv env up name)
       \<and> calls (handle_get cs srv env up [name]) = snd (fetchODataEntity srv env up name)
       \<and> (case fst (fetchODataEntity srv env up name) of
            Inr d \<Rightarrow>
              reply (handle_get cs srv env up [''odata'', name]) = \<lparr>res_status = 200, res_body = Json d\<rparr>
              \<and> reply (handle_get cs srv env up [name]) = \<lparr>res_status = 200, res_body = Json d\<rparr>
          | Inl err \<Rightarrow>
              reply (handle_get cs srv env up [''odata'', name]) =
                \<lparr>res_status = 500,
                 res_body = Sent (''Failed to fetch entity '' @ [CHR 0x27] @ name @ [CHR 0x27])\<rparr>
              \<and> reply (handle_get cs srv env up [name]) =
                \<lparr>res_status = 500, res_body = Sent (''Failed to fetch '' @ name)\<rparr>)"
proof -
  obtain r c where f: "fetchODataEntity srv env up name = (r, c)" by (cases "fetchODataEntity srv env up name")
  have od: "handle_get cs srv env up [''odata'', name] = odata_entity_route srv env up name"
    using assms by (simp add: route_odata allowed_nonempty)
  note sh = shortcut_request [OF assms, of cs srv env up]
  show ?thesis
  proof (cases r)
    case (Inl err)
    with f assms show ?thesis
      by (simp add: od sh odata_failed shortcut_failed)
  next
    case (Inr d)
    with f assms show ?thesis
      by (simp add: od sh odata_ok shortcut_ok)
  qed
qed

theorem generic_and_shortcut_routes_agree_witness:
  "''Orders'' \<in> set ALLOWED_ENTITIES
   \<and> reply (handle_get False example_server Map.empty unreachable_upstream [''odata'', ''Orders''])
       = \<lparr>res_status = 500, res_body = Sent (''Failed to fetch entity 'Orders'' @ [CHR 0x27])\<rparr>
   \<and> reply (handle_get False example_server Map.empty unreachable_upstream [''Orders''])
       = \<lparr>res_status = 500, res_body = Sent ''Failed to fetch Orders''\<rparr>"
proof -
  have h: "''Orders'' \<in> set ALLOWED_ENTITIES" by (simp add: ALLOWED_ENTITIES_def)
  have f: "fetchODataEntity example_server Map.empty unreachable_upstream ''Orders''
             = (Inl (AxiosError None), [token_request example_server])"
    by (simp add: fetch_token_failed token_no_response unreachable_upstream_def)
  from generic_and_shortcut_routes_agree [OF h, of False example_server Map.empty unreachable_upstream]
  show ?thesis using h by (simp add: f)
qed

text \<open>
  C1 as stated fails: with no upstream answering, \<^verbatim>\<open>GET /odata/Products\<close> and
  \<^verbatim>\<open>GET /Products\<close> do not give the same reply, under either routing setting.
\<close>

theorem generic_and_shortcut_bodies_differ:
  "reply (handle_get True example_server Map.empty unreachable_upstream [''odata'', ''Products''])
     \<noteq> reply (handle_get True example_server Map.empty unreachable_upstream [''Products''])
   \<and> reply (handle_get False example_server Map.empty unreachable_upstream [''odata'', ''Products''])
     \<noteq> reply (handle_get False example_server Map.empty unreachable_upstream [''Products''])"
proof -
  have h: "''Products'' \<in> set ALLOWED_ENTITIES" by (simp add: ALLOWED_ENTITIES_def)
  have f: "fetchODataEntity example_server Map.empty unreachable_upstream ''Products''
             = (Inl (AxiosError None), [token_request example_server])"
    by (simp add: fetch_token_failed token_no_response unreachable_upstream_def)
  have sensitive:
    "reply (handle_get True example_server Map.empty unreachable_upstream [''odata'', ''Products''])
     \<noteq> reply (handle_get True example_server Map.empty unreachable_upstream [''Products''])"
    by (simp add: route_odata route_shortcut h same_literal_def odata_failed [OF h f]
        shortcut_failed [OF f])
  have insensitive:
    "reply (handle_get False example_server Map.empty unreachable_upstream [''odata'', ''Products''])
     \<noteq> reply (handle_get False example_server Map.empty unreachable_upstream [''Products''])"
    by (simp add: route_odata route_shortcut h products_route_by_default odata_failed [OF h f]
        products_failed [OF f])
  from sensitive insensitive show ?thesis by (rule conjI)
qed

text \<open>
  C2, as amended. Once the token and the destination are resolved and the destination's
  \<^verbatim>\<open>URL\<close> is a string, the data call goes to the base with one trailing slash removed,
  then \<^verbatim>\<open>/{entity}?$format=json\<close>. Exactly one slash is removed: a base that ends in a
  slash loses its last character, any other base is kept. So unless the base ends in two
  or more slashes, what precedes \<^verbatim>\<open>/{entity}\<close> in the composed URL does not end in a
  slash.
\<close>

theorem one_trailing_slash_is_stripped:
  assumes "getDestinationToken srv up = (Inr tok, c1)"
    and "getDestinationConfig srv env up tok = (Inr destConfig, c2)"
    and "get_prop destConfig ''URL'' = Inr (JStr base)"
  shows "snd (fetchODataEntity srv env up entity) =
           c1 @ c2 @ [data_request (replace_trailing_slash base @ ''/'' @ entity @ ''?$format=json'')]
       \<and> (\<not> suffix ''//'' base \<longrightarrow> \<not> suffix ''/'' (replace_trailing_slash base))
       \<and> (suffix ''/'' base \<longrightarrow> replace_trailing_slash base = butlast base)
       \<and> (\<not> suffix ''/'' base \<longrightarrow> replace_trailing_slash base = base)"
proof -
  have "snd (fetchODataEntity srv env up entity) =
          c1 @ c2 @ [data_request (odataUrl (replace_trailing_slash base) entity)]"
    using assms by (simp add: fetch_data_call)
  moreover have "suffix ''/'' base \<longrightarrow> replace_trailing_slash base = butlast base"
    by (auto simp: suffix_def strip_appended_slash)
  ultimately show ?thesis
    by (simp add: odataUrl_def stripped_has_no_slash strip_no_slash)
qed

text \<open>The theorem at the base \<^verbatim>\<open>https://x/\<close>.\<close>

theorem one_trailing_slash_is_stripped_witness:
  "getDestinationToken example_server (destination_upstream example_token ''https://x/'' example_rows)
     = (Inr (JStr ''t0ken''), [token_request example_server])
   \<and> getDestinationConfig example_server Map.empty
        (destination_upstream example_token ''https://x/'' example_rows) (JStr ''t0ken'')
     = (Inr (JObj [(''Name'', JStr ''Products''), (''URL'', JStr ''https://x/'')]),
        [config_request example_server Map.empty (JStr ''t0ken'')])
   \<and> get_prop (JObj [(''Name'', JStr ''Products''), (''URL'', JStr ''https://x/'')]) ''URL''
     = Inr (JStr ''https://x/'')
   \<and> \<not> suffix ''//'' ''https://x/''
   \<and> suffix ''/'' ''https://x/''
   \<and> snd (fetchODataEntity example_server Map.empty
        (destination_upstream example_token ''https://x/'' example_rows) ''Products'')
     = [token_request example_server, config_request example_server Map.empty (JStr ''t0ken''),
        data_request ''https://x/Products?$format=json'']"
proof -
  have h3: "get_prop (JObj [(''Name'', JStr ''Products''), (''URL'', JStr ''https://x/'')]) ''URL''
     = Inr (JStr ''https://x/'')" by simp
  have s2: "\<not> suffix ''//'' ''https://x/''" by (simp add: suffix_to_prefix)
  have s1: "suffix ''/'' ''https://x/''" by (simp add: suffix_to_prefix)
  from one_trailing_slash_is_stripped [OF example_token_acquired example_config_resolved h3,
      where entity = "''Products''" and env = Map.empty]
  show ?thesis using h3 s1 s2 by (simp add: example_token_acquired example_config_resolved)
qed

text \<open>
  C2 as stated fails: a base that ends in two slashes keeps one, and the data call goes to
  a URL with \<^verbatim>\<open>//Products\<close>, not to the URL of the base without its slashes.
\<close>

theorem two_trailing_slashes_leave_one:
  "map req_url (snd (fetchODataEntity example_server Map.empty
      (destination_upstream example_token ''https://x//'' example_rows) ''Products''))
   = [''https://auth.example/oauth/token'',
      ''https://dest.example/destination-configuration/v1/destinations/Products'',
      ''https://x//Products?$format=json'']"
proof -
  have "get_prop (JObj [(''Name'', JStr ''Products''), (''URL'', JStr ''https://x//'')]) ''URL''
     = Inr (JStr ''https://x//'')" by simp
  from fetch_data_call [OF example_token_acquired example_config_resolved this]
  show ?thesis
    by (simp add: replace_trailing_slash_def odataUrl_def data_request_def token_request_def
        config_request_def example_server_def destinationName_def)
qed

text \<open>
  C3. When \<^verbatim>\<open>req.params.entity\<close> is any string that is not, character for character, one
  of the eight allowed names, the handler of \<^verbatim>\<open>/odata/:entity\<close> replies 400 with a text
  that ends in the whole allow-list, makes no outbound call and logs nothing, whatever
  the upstreams would answer. A request \<^verbatim>\<open>GET /odata/{entity}\<close> with a non-empty segment
  reaches that handler.
\<close>

theorem unlisted_entity_is_rejected:
  assumes "entity \<notin> set ALLOWED_ENTITIES"
  shows "odata_entity_route srv env up entity =
           \<lparr>reply = \<lparr>res_status = 400,
                     res_body = Sent (''Entity '' @ [CHR 0x27] @ entity @ [CHR 0x27]
                       @ '' is not allowed. Allowed: Categories, CustomerDemographics, Customers, Employees, Order_Details, Orders, Products, Regions'')\<rparr>,
            logs = [], calls = []\<rparr>
         \<and> (entity \<noteq> [] \<longrightarrow>
              handle_get cs srv env up [''odata'', entity] = odata_entity_route srv env up entity)"
  using assms by (simp add: odata_entity_route_def allow_list_text route_odata)

theorem unlisted_entity_is_rejected_witness:
  "''Foo'' \<notin> set ALLOWED_ENTITIES
   \<and> handle_get False example_server Map.empty unreachable_upstream [''odata'', ''Foo''] =
       \<lparr>reply = \<lparr>res_status = 400,
                 res_body = Sent ''Entity 'Foo' is not allowed. Allowed: Categories, CustomerDemographics, Customers, Employees, Order_Details, Orders, Products, Regions''\<rparr>,
        logs = [], calls = []\<rparr>"
proof -
  have h: "''Foo'' \<notin> set ALLOWED_ENTITIES" by (simp add: ALLOWED_ENTITIES_def)
  from unlisted_entity_is_rejected [OF h, of example_server Map.empty unreachable_upstream False]
  show ?thesis using h by simp
qed

text \<open>
  C4. When the token exchange answers 2xx with an \<^verbatim>\<open>access_token\<close>, the destination
  lookup answers 2xx with a configuration whose \<^verbatim>\<open>URL\<close> is
  \<^verbatim>\<open>https://services.odata.org/northwind/northwind.svc/\<close>, and the data service answers
  2xx with a body \<open>d\<close>, then \<^verbatim>\<open>GET /Products\<close> replies 200 with \<open>d\<close> itself, and makes
  three outbound calls: the token exchange, the lookup, and one data call, a GET of
  \<^verbatim>\<open>https://services.odata.org/northwind/northwind.svc/Products?$format=json\<close> with no
  headers and no credentials.
\<close>

theorem northwind_products_scenario:
  assumes "up (token_request srv) = Response s1 b1" and "200 \<le> s1" and "s1 < 300"
    and "get_prop b1 ''access_token'' = Inr tok"
    and "up (config_request srv env tok) = Response s2 b2" and "200 \<le> s2" and "s2 < 300"
    and "get_prop b2 ''destinationConfiguration'' = Inr destConfig"
    and "get_prop destConfig ''URL'' = Inr (JStr ''https://services.odata.org/northwind/northwind.svc/'')"
    and "up (data_request ''https://services.odata.org/northwind/northwind.svc/Products?$format=json'')
           = Response s3 d"
    and "200 \<le> s3" and "s3 < 300"
  shows "reply (handle_get cs srv env up [''Products'']) = \<lparr>res_status = 200, res_body = Json d\<rparr>
       \<and> calls (handle_get cs srv env up [''Products'']) =
           [token_request srv, config_request srv env tok,
            \<lparr>req_method = GET,
             req_url = ''https://services.odata.org/northwind/northwind.svc/Products?$format=json'',
             req_auth = None, req_headers = [], req_form = []\<rparr>]"
proof -
  have t: "getDestinationToken srv up = (Inr tok, [token_request srv])"
    using assms(1-4) by (simp add: token_2xx)
  have c: "getDestinationConfig srv env up tok = (Inr destConfig, [config_request srv env tok])"
    using assms(5-8) by (simp add: config_2xx)
  have u: "odataUrl (replace_trailing_slash ''https://services.odata.org/northwind/northwind.svc/'')
             ''Products''
           = ''https://services.odata.org/northwind/northwind.svc/Products?$format=json''"
    by (simp add: odataUrl_def replace_trailing_slash_def)
  have a: "axios up (data_request
             ''https://services.odata.org/northwind/northwind.svc/Products?$format=json'')
           = Inr \<lparr>status = s3, data = d\<rparr>"
    using assms(10-12) by (simp add: axios_def)
  have f: "fetchODataEntity srv env up ''Products'' =
             (Inr d, [token_request srv, config_request srv env tok,
                      data_request ''https://services.odata.org/northwind/northwind.svc/Products?$format=json''])"
    using fetch_data_call [OF t c assms(9), of "''Products''"] by (simp only: u a) simp
  have "''Products'' \<in> set ALLOWED_ENTITIES" by (rule products_in_allowed)
  from shortcut_request [OF this, of cs srv env up] show ?thesis
    by (simp add: shortcut_ok [OF f] data_request_def)
qed

text \<open>The scenario on an upstream that serves this destination.\<close>

theorem northwind_products_scenario_witness:
  "destination_upstream example_token ''https://services.odata.org/northwind/northwind.svc/''
       example_rows (token_request example_server) = Response 200 example_token
   \<and> (200::nat) \<le> 200 \<and> (200::nat) < 300
   \<and> get_prop example_token ''access_token'' = Inr (JStr ''t0ken'')
   \<and> destination_upstream example_token ''https://services.odata.org/northwind/northwind.svc/''
       example_rows (config_request example_server Map.empty (JStr ''t0ken''))
      = Response 200 (JObj [(''destinationConfiguration'',
           JObj [(''Name'', JStr ''Products''),
                 (''URL'', JStr ''https://services.odata.org/northwind/northwind.svc/'')])])
   \<and> get_prop (JObj [(''destinationConfiguration'',
           JObj [(''Name'', JStr ''Products''),
                 (''URL'', JStr ''https://services.odata.org/northwind/northwind.svc/'')])])
         ''destinationConfiguration''
      = Inr (JObj [(''Name'', JStr ''Products''),
                   (''URL'', JStr ''https://services.odata.org/northwind/northwind.svc/'')])
   \<and> get_prop (JObj [(''Name'', JStr ''Products''),
                   (''URL'', JStr ''https://services.odata.org/northwind/northwind.svc/'')]) ''URL''
      = Inr (JStr ''https://services.odata.org/northwind/northwind.svc/'')
   \<and> destination_upstream example_token ''https://services.odata.org/northwind/northwind.svc/''
       example_rows
       (data_request ''https://services.odata.org/northwind/northwind.svc/Products?$format=json'')
      = Response 200 example_rows
   \<and> reply (handle_get False example_server Map.empty
        (destination_upstream example_token ''https://services.odata.org/northwind/northwind.svc/''
           example_rows) [''Products''])
      = \<lparr>res_status = 200, res_body = Json example_rows\<rparr>
   \<and> map req_url (calls (handle_get False example_server Map.empty
        (destination_upstream example_token ''https://services.odata.org/northwind/northwind.svc/''
           example_rows) [''Products'']))
      = [''https://auth.example/oauth/token'',
         ''https://dest.example/destination-configuration/v1/destinations/Products'',
         ''https://services.odata.org/northwind/northwind.svc/Products?$format=json'']"
proof -
  let ?up = "destination_upstream example_token
               ''https://services.odata.org/northwind/northwind.svc/'' example_rows"
  let ?dc = "JObj [(''Name'', JStr ''Products''),
                   (''URL'', JStr ''https://services.odata.org/northwind/northwind.svc/'')]"
  have h1: "?up (token_request example_server) = Response 200 example_token"
    by (simp add: destination_upstream_def token_request_def)
  have h4: "get_prop example_token ''access_token'' = Inr (JStr ''t0ken'')"
    by (simp add: example_token_def)
  have h5: "?up (config_request example_server Map.empty (JStr ''t0ken''))
              = Response 200 (JObj [(''destinationConfiguration'', ?dc)])"
    by (simp add: destination_upstream_def config_request_def)
  have h8: "get_prop (JObj [(''destinationConfiguration'', ?dc)]) ''destinationConfiguration''
              = Inr ?dc" by simp
  have h9: "get_prop ?dc ''URL''
              = Inr (JStr ''https://services.odata.org/northwind/northwind.svc/'')" by simp
  have h10: "?up (data_request
               ''https://services.odata.org/northwind/northwind.svc/Products?$format=json'')
             = Response 200 example_rows"
    by (simp add: destination_upstream_def data_request_def)
  have n: "(200::nat) \<le> 200" "(200::nat) < 300" by simp_all
  note w = northwind_products_scenario [OF h1 n h4 h5 n h8 h9 h10 n, of False]
  have urls: "map req_url [token_request example_server,
                 config_request example_server Map.empty (JStr ''t0ken''),
                 \<lparr>req_method = GET,
                  req_url = ''https://services.odata.org/northwind/northwind.svc/Products?$format=json'',
                  req_auth = None, req_headers = [], req_form = []\<rparr>]
              = [''https://auth.example/oauth/token'',
                 ''https://dest.example/destination-configuration/v1/destinations/Products'',
                 ''https://services.odata.org/northwind/northwind.svc/Products?$format=json'']"
    by (simp add: token_request_def config_request_def example_server_def destinationName_def)
  show ?thesis
    using h1 h4 h5 h8 h9 h10 w urls by (simp only: n simp_thms)
qed

text \<open>
  C5. For every allowed name, the chain \<^verbatim>\<open>fetchODataEntity(name)\<close> fails whenever one of
  its steps throws, and makes no call after the step that threw:
  \<^item> the token exchange gets no answer, an answer outside 200..299, or a 2xx body whose
    \<^verbatim>\<open>access_token\<close> cannot be read;
  \<^item> the destination lookup gets no answer, an answer outside 200..299, or a 2xx body
    whose \<^verbatim>\<open>destinationConfiguration\<close> cannot be read;
  \<^item> the configuration's \<^verbatim>\<open>URL\<close> cannot be read or is not a string;
  \<^item> the data call gets no answer or an answer outside 200..299.
  Whenever the chain fails, \<^verbatim>\<open>/odata/{name}\<close>, \<^verbatim>\<open>/{name}\<close> and \<^verbatim>\<open>/products\<close> reply 500 with
  a text fixed by the route alone, never with anything an upstream sent. The error, and
  the upstream's status and body when there are any, go to the console only, and the
  calls made are those of the failed chain. A listening process answers every request of
  any sequence and is still listening afterwards.
\<close>

theorem chain_failure_is_500:
  assumes "name \<in> set ALLOWED_ENTITIES"
  shows "(fetchODataEntity srv env up name = (Inl err, c) \<longrightarrow>
            handle_get cs srv env up [''odata'', name] =
              \<lparr>reply = \<lparr>res_status = 500,
                        res_body = Sent (''Failed to fetch entity '' @ [CHR 0x27] @ name
                                         @ [CHR 0x27])\<rparr>,
               logs = ConsoleError [LStr (''Error in /odata/'' @ name @ '':''), LMessage err]
                      # remote_error err,
               calls = c\<rparr>
            \<and> handle_get cs srv env up [name] =
              \<lparr>reply = \<lparr>res_status = 500, res_body = Sent (''Failed to fetch '' @ name)\<rparr>,
               logs = ConsoleError
                        [LStr (if same_literal cs ''products'' name then ''Error in /products:''
                               else ''Error in /'' @ name @ '':''), LMessage err]
                      # remote_error err,
               calls = c\<rparr>)
       \<and> (fetchODataEntity srv env up ''Products'' = (Inl err, c) \<longrightarrow>
            handle_get cs srv env up [''products''] =
              \<lparr>reply = \<lparr>res_status = 500, res_body = Sent ''Failed to fetch Products''\<rparr>,
               logs = ConsoleError [LStr ''Error in /products:'', LMessage err] # remote_error err,
               calls = c\<rparr>)
       \<and> run cs (Listening srv) evs =
           (Listening srv,
            map (\<lambda>ev. Some (handle_get cs srv (ev_env ev) (ev_upstream ev) (ev_path ev))) evs)
       \<and> (up (token_request srv) = NoResponse \<longrightarrow>
            fetchODataEntity srv env up name = (Inl (AxiosError None), [token_request srv]))
       \<and> (up (token_request srv) = Response s1 b1 \<longrightarrow>
            (\<not> (200 \<le> s1 \<and> s1 < 300) \<longrightarrow>
               fetchODataEntity srv env up name =
                 (Inl (AxiosError (Some \<lparr>status = s1, data = b1\<rparr>)), [token_request srv]))
          \<and> (200 \<le> s1 \<and> s1 < 300 \<and> get_prop b1 ''access_token'' = Inl e \<longrightarrow>
               fetchODataEntity srv env up name = (Inl e, [token_request srv]))
          \<and> (200 \<le> s1 \<and> s1 < 300 \<and> get_prop b1 ''access_token'' = Inr tok \<longrightarrow>
               (up (config_request srv env tok) = NoResponse \<longrightarrow>
                  fetchODataEntity srv env up name =
                    (Inl (AxiosError None), [token_request srv, config_request srv env tok]))
             \<and> (up (config_request srv env tok) = Response s2 b2 \<longrightarrow>
                  (\<not> (200 \<le> s2 \<and> s2 < 300) \<longrightarrow>
                     fetchODataEntity srv env up name =
                       (Inl (AxiosError (Some \<lparr>status = s2, data = b2\<rparr>)),
                        [token_request srv, config_request srv env tok]))
                \<and> (200 \<le> s2 \<and> s2 < 300
                     \<and> get_prop b2 ''destinationConfiguration'' = Inl e \<longrightarrow>
                     fetchODataEntity srv env up name =
                       (Inl e, [token_request srv, config_request srv env tok]))
                \<and> (200 \<le> s2 \<and> s2 < 300
                     \<and> get_prop b2 ''destinationConfiguration'' = Inr destConfig \<longrightarrow>
                     (get_prop destConfig ''URL'' = Inl e \<longrightarrow>
                        fetchODataEntity srv env up name =
                          (Inl e, [token_request srv, config_request srv env tok]))
                   \<and> (get_prop destConfig ''URL'' = Inr u \<and> (\<forall>s. u \<noteq> JStr s) \<longrightarrow>
                        fetchODataEntity srv env up name =
                          (Inl TypeError, [token_request srv, config_request srv env tok]))
                   \<and> (get_prop destConfig ''URL'' = Inr (JStr base) \<longrightarrow>
                        (up (data_request (replace_trailing_slash base @ ''/'' @ name @ ''?$format=json'')) = NoResponse \<longrightarrow>
                           fetchODataEntity srv env up name =
                             (Inl (AxiosError None),
                              [token_request srv, config_request srv env tok,
                               data_request (replace_trailing_slash base @ ''/'' @ name @ ''?$format=json'')]))
                      \<and> (up (data_request (replace_trailing_slash base @ ''/'' @ name @ ''?$format=json'')) = Response s3 b3 \<and> \<not> (200 \<le> s3 \<and> s3 < 300) \<longrightarrow>
                           fetchODataEntity srv env up name =
                             (Inl (AxiosError (Some \<lparr>status = s3, data = b3\<rparr>)),
                              [token_request srv, config_request srv env tok,
                               data_request (replace_trailing_slash base @ ''/'' @ name @ ''?$format=json'')])))))))"
proof -
  have routes: "fetchODataEntity srv env up name = (Inl err, c) \<longrightarrow>
            handle_get cs srv env up [''odata'', name] =
              \<lparr>reply = \<lparr>res_status = 500,
                        res_body = Sent (''Failed to fetch entity '' @ [CHR 0x27] @ name
                                         @ [CHR 0x27])\<rparr>,
               logs = ConsoleError [LStr (''Error in /odata/'' @ name @ '':''), LMessage err]
                      # remote_error err,
               calls = c\<rparr>
            \<and> handle_get cs srv env up [name] =
              \<lparr>reply = \<lparr>res_status = 500, res_body = Sent (''Failed to fetch '' @ name)\<rparr>,
               logs = ConsoleError
                        [LStr (if same_literal cs ''products'' name then ''Error in /products:''
                               else ''Error in /'' @ name @ '':''), LMessage err]
                      # remote_error err,
               calls = c\<rparr>"
    using assms
    by (simp add: route_odata allowed_nonempty odata_failed shortcut_request_failed)
  have products: "fetchODataEntity srv env up ''Products'' = (Inl err, c) \<longrightarrow>
            handle_get cs srv env up [''products''] =
              \<lparr>reply = \<lparr>res_status = 500, res_body = Sent ''Failed to fetch Products''\<rparr>,
               logs = ConsoleError [LStr ''Error in /products:'', LMessage err] # remote_error err,
               calls = c\<rparr>"
    by (simp add: route_products_lower products_failed)
  have token_none: "up (token_request srv) = NoResponse \<longrightarrow>
            fetchODataEntity srv env up name = (Inl (AxiosError None), [token_request srv])"
    by (simp add: fetch_token_failed token_no_response)
  have steps: "up (token_request srv) = Response s1 b1 \<longrightarrow>
            (\<not> (200 \<le> s1 \<and> s1 < 300) \<longrightarrow>
               fetchODataEntity srv env up name =
                 (Inl (AxiosError (Some \<lparr>status = s1, data = b1\<rparr>)), [token_request srv]))
          \<and> (200 \<le> s1 \<and> s1 < 300 \<and> get_prop b1 ''access_token'' = Inl e \<longrightarrow>
               fetchODataEntity srv env up name = (Inl e, [token_request srv]))
          \<and> (200 \<le> s1 \<and> s1 < 300 \<and> get_prop b1 ''access_token'' = Inr tok \<longrightarrow>
               (up (config_request srv env tok) = NoResponse \<longrightarrow>
                  fetchODataEntity srv env up name =
                    (Inl (AxiosError None), [token_request srv, config_request srv env tok]))
             \<and> (up (config_request srv env tok) = Response s2 b2 \<longrightarrow>
                  (\<not> (200 \<le> s2 \<and> s2 < 300) \<longrightarrow>
                     fetchODataEntity srv env up name =
                       (Inl (AxiosError (Some \<lparr>status = s2, data = b2\<rparr>)),
                        [token_request srv, config_request srv env tok]))
                \<and> (200 \<le> s2 \<and> s2 < 300
                     \<and> get_prop b2 ''destinationConfiguration'' = Inl e \<longrightarrow>
                     fetchODataEntity srv env up name =
                       (Inl e, [token_request srv, config_request srv env tok]))
                \<and> (200 \<le> s2 \<and> s2 < 300
                     \<and> get_prop b2 ''destinationConfiguration'' = Inr destConfig \<longrightarrow>
                     (get_prop destConfig ''URL'' = Inl e \<longrightarrow>
                        fetchODataEntity srv env up name =
                          (Inl e, [token_request srv, config_request srv env tok]))
                   \<and> (get_prop destConfig ''URL'' = Inr u \<and> (\<forall>s. u \<noteq> JStr s) \<longrightarrow>
                        fetchODataEntity srv env up name =
                          (Inl TypeError, [token_request srv, config_request srv env tok]))
                   \<and> (get_prop destConfig ''URL'' = Inr (JStr base) \<longrightarrow>
                        (up (data_request (replace_trailing_slash base @ ''/'' @ name @ ''?$format=json'')) = NoResponse \<longrightarrow>
                           fetchODataEntity srv env up name =
                             (Inl (AxiosError None),
                              [token_request srv, config_request srv env tok,
                               data_request (replace_trailing_slash base @ ''/'' @ name @ ''?$format=json'')]))
                      \<and> (up (data_request (replace_trailing_slash base @ ''/'' @ name @ ''?$format=json'')) = Response s3 b3 \<and> \<not> (200 \<le> s3 \<and> s3 < 300) \<longrightarrow>
                           fetchODataEntity srv env up name =
                             (Inl (AxiosError (Some \<lparr>status = s3, data = b3\<rparr>)),
                              [token_request srv, config_request srv env tok,
                               data_request (replace_trailing_slash base @ ''/'' @ name @ ''?$format=json'')]))))))"
  proof (intro impI conjI, goal_cases)
    case 1
    then show ?case by (simp add: fetch_token_failed token_non_2xx)
  next
    case 2
    then show ?case by (simp add: fetch_token_failed token_2xx)
  next
    case 3
    then have t: "getDestinationToken srv up = (Inr tok, [token_request srv])"
      by (simp add: token_2xx)
    from 3 show ?case by (simp add: fetch_config_failed [OF t] config_no_response)
  next
    case 4
    then have t: "getDestinationToken srv up = (Inr tok, [token_request srv])"
      by (simp add: token_2xx)
    from 4 show ?case by (simp add: fetch_config_failed [OF t] config_non_2xx)
  next
    case 5
    then have t: "getDestinationToken srv up = (Inr tok, [token_request srv])"
      by (simp add: token_2xx)
    from 5 show ?case by (simp add: fetch_config_failed [OF t] config_2xx)
  next
    case 6
    then have t: "getDestinationToken srv up = (Inr tok, [token_request srv])"
      and g: "getDestinationConfig srv env up tok = (Inr destConfig, [config_request srv env tok])"
      by (simp_all add: token_2xx config_2xx)
    from 6 show ?case by (simp add: fetch_url_throws [OF t g])
  next
    case 7
    then have t: "getDestinationToken srv up = (Inr tok, [token_request srv])"
      and g: "getDestinationConfig srv env up tok = (Inr destConfig, [config_request srv env tok])"
      by (simp_all add: token_2xx config_2xx)
    from 7 show ?case by (simp add: fetch_url_not_string [OF t g])
  next
    case 8
    then have t: "getDestinationToken srv up = (Inr tok, [token_request srv])"
      and g: "getDestinationConfig srv env up tok = (Inr destConfig, [config_request srv env tok])"
      by (simp_all add: token_2xx config_2xx)
    from 8 show ?case by (simp add: fetch_data_no_response [OF t g])
  next
    case 9
    then have t: "getDestinationToken srv up = (Inr tok, [token_request srv])"
      and g: "getDestinationConfig srv env up tok = (Inr destConfig, [config_request srv env tok])"
      by (simp_all add: token_2xx config_2xx)
    from 9 show ?case by (simp add: fetch_data_non_2xx [OF t g])
  qed
  from routes products run_listening [of cs srv evs] token_none steps show ?thesis
    by (intro conjI)
qed

text \<open>
  The theorem on three upstreams: one answers 401 to the token exchange, one refuses the
  lookup with 403, one fails the data call with 500 and a body.
\<close>

theorem chain_failure_is_500_witness:
  "''Orders'' \<in> set ALLOWED_ENTITIES
   \<and> unauthorized_upstream (token_request example_server) = Response 401 (JStr ''Unauthorized'')
   \<and> \<not> (200 \<le> (401::nat) \<and> (401::nat) < 300)
   \<and> fetchODataEntity example_server Map.empty unauthorized_upstream ''Orders'' =
       (Inl (AxiosError (Some \<lparr>status = 401, data = JStr ''Unauthorized''\<rparr>)),
        [token_request example_server])
   \<and> handle_get False example_server Map.empty unauthorized_upstream [''odata'', ''Orders''] =
       \<lparr>reply = \<lparr>res_status = 500,
                 res_body = Sent (''Failed to fetch entity 'Orders'' @ [CHR 0x27])\<rparr>,
        logs = [ConsoleError [LStr ''Error in /odata/Orders:'',
                  LMessage (AxiosError (Some \<lparr>status = 401, data = JStr ''Unauthorized''\<rparr>))],
                ConsoleError [LStr ''Remote error:'', LNum 401, LJson (JStr ''Unauthorized'')]],
        calls = [token_request example_server]\<rparr>
   \<and> config_denied_upstream (token_request example_server) = Response 200 example_token
   \<and> get_prop example_token ''access_token'' = Inr (JStr ''t0ken'')
   \<and> config_denied_upstream (config_request example_server Map.empty (JStr ''t0ken''))
       = Response 403 (JStr ''Forbidden'')
   \<and> \<not> (200 \<le> (403::nat) \<and> (403::nat) < 300)
   \<and> fetchODataEntity example_server Map.empty config_denied_upstream ''Orders'' =
       (Inl (AxiosError (Some \<lparr>status = 403, data = JStr ''Forbidden''\<rparr>)),
        [token_request example_server, config_request example_server Map.empty (JStr ''t0ken'')])
   \<and> data_down_upstream (token_request example_server) = Response 200 example_token
   \<and> data_down_upstream (config_request example_server Map.empty (JStr ''t0ken''))
       = Response 200 (JObj [(''destinationConfiguration'',
                              JObj [(''Name'', JStr ''Products''), (''URL'', JStr ''https://x'')])])
   \<and> get_prop (JObj [(''destinationConfiguration'',
                       JObj [(''Name'', JStr ''Products''), (''URL'', JStr ''https://x'')])])
         ''destinationConfiguration''
       = Inr (JObj [(''Name'', JStr ''Products''), (''URL'', JStr ''https://x'')])
   \<and> get_prop (JObj [(''Name'', JStr ''Products''), (''URL'', JStr ''https://x'')]) ''URL''
       = Inr (JStr ''https://x'')
   \<and> data_down_upstream (data_request ''https://x/Orders?$format=json'')
       = Response 500 (JObj [(''error'', JStr ''boom'')])
   \<and> \<not> (200 \<le> (500::nat) \<and> (500::nat) < 300)
   \<and> fetchODataEntity example_server Map.empty data_down_upstream ''Orders'' =
       (Inl (AxiosError (Some \<lparr>status = 500, data = JObj [(''error'', JStr ''boom'')]\<rparr>)),
        [token_request example_server, config_request example_server Map.empty (JStr ''t0ken''),
         data_request ''https://x/Orders?$format=json''])
   \<and> handle_get False example_server Map.empty data_down_upstream [''Orders''] =
       \<lparr>reply = \<lparr>res_status = 500, res_body = Sent ''Failed to fetch Orders''\<rparr>,
        logs = [ConsoleError [LStr ''Error in /Orders:'',
                  LMessage (AxiosError
                    (Some \<lparr>status = 500, data = JObj [(''error'', JStr ''boom'')]\<rparr>))],
                ConsoleError [LStr ''Remote error:'', LNum 500,
                  LJson (JObj [(''error'', JStr ''boom'')])]],
        calls = [token_request example_server,
                 config_request example_server Map.empty (JStr ''t0ken''),
                 data_request ''https://x/Orders?$format=json'']\<rparr>"
proof -
  let ?cfg = "config_request example_server Map.empty (JStr ''t0ken'')"
  let ?dc = "JObj [(''Name'', JStr ''Products''), (''URL'', JStr ''https://x'')]"
  let ?e401 = "AxiosError (Some \<lparr>status = 401, data = JStr ''Unauthorized''\<rparr>)"
  let ?e500 = "AxiosError (Some \<lparr>status = 500, data = JObj [(''error'', JStr ''boom'')]\<rparr>)"
  have h: "''Orders'' \<in> set ALLOWED_ENTITIES" by (simp add: ALLOWED_ENTITIES_def)
  note Ta = chain_failure_is_500 [OF h, where srv = example_server and env = Map.empty
      and up = unauthorized_upstream and cs = False]
  note Tb = chain_failure_is_500 [OF h, where srv = example_server and env = Map.empty
      and up = config_denied_upstream and cs = False]
  note Tc = chain_failure_is_500 [OF h, where srv = example_server and env = Map.empty
      and up = data_down_upstream and cs = False]
  have ok: "(200::nat) \<le> 200" "(200::nat) < 300" by simp_all
  have n401: "\<not> (200 \<le> (401::nat) \<and> (401::nat) < 300)" by simp
  have n403: "\<not> (200 \<le> (403::nat) \<and> (403::nat) < 300)" by simp
  have n500: "\<not> (200 \<le> (500::nat) \<and> (500::nat) < 300)" by simp
  have url: "replace_trailing_slash ''https://x'' @ ''/'' @ ''Orders'' @ ''?$format=json''
               = ''https://x/Orders?$format=json''"
    by (simp add: replace_trailing_slash_def)
  have tok: "get_prop example_token ''access_token'' = Inr (JStr ''t0ken'')"
    by (simp add: example_token_def)
  have gdc: "get_prop (JObj [(''destinationConfiguration'', ?dc)]) ''destinationConfiguration''
               = Inr ?dc" by simp
  have gurl: "get_prop ?dc ''URL'' = Inr (JStr ''https://x'')" by simp
  txt \<open>the token exchange answers 401\<close>
  have a1: "unauthorized_upstream (token_request example_server)
              = Response 401 (JStr ''Unauthorized'')"
    by (simp add: unauthorized_upstream_def)
  have a2: "fetchODataEntity example_server Map.empty unauthorized_upstream ''Orders'' =
              (Inl ?e401, [token_request example_server])"
    by (rule Ta [THEN conjunct2, THEN conjunct2, THEN conjunct2, THEN conjunct2, THEN mp, OF a1, THEN conjunct1, THEN mp,
          OF n401])
  have a3: "handle_get False example_server Map.empty unauthorized_upstream [''odata'', ''Orders''] =
       \<lparr>reply = \<lparr>res_status = 500,
                 res_body = Sent (''Failed to fetch entity 'Orders'' @ [CHR 0x27])\<rparr>,
        logs = [ConsoleError [LStr ''Error in /odata/Orders:'', LMessage ?e401],
                ConsoleError [LStr ''Remote error:'', LNum 401, LJson (JStr ''Unauthorized'')]],
        calls = [token_request example_server]\<rparr>"
    using Ta [THEN conjunct1, THEN mp, OF a2,
        THEN conjunct1]
    by (simp add: remote_error_response)
  txt \<open>the lookup answers 403\<close>
  have b1: "config_denied_upstream (token_request example_server) = Response 200 example_token"
    by (simp add: config_denied_upstream_def token_request_def)
  have b2: "config_denied_upstream ?cfg = Response 403 (JStr ''Forbidden'')"
    by (simp add: config_denied_upstream_def config_request_def)
  have b3: "fetchODataEntity example_server Map.empty config_denied_upstream ''Orders'' =
       (Inl (AxiosError (Some \<lparr>status = 403, data = JStr ''Forbidden''\<rparr>)),
        [token_request example_server, ?cfg])"
    by (rule Tb [THEN conjunct2, THEN conjunct2, THEN conjunct2, THEN conjunct2, THEN mp, OF b1,
          THEN conjunct2, THEN conjunct2, THEN mp, OF conjI [OF ok(1) conjI [OF ok(2) tok]],
          THEN conjunct2, THEN mp, OF b2, THEN conjunct1, THEN mp, OF n403])
  txt \<open>the data call answers 500\<close>
  have c1: "data_down_upstream (token_request example_server) = Response 200 example_token"
    by (simp add: data_down_upstream_def token_request_def)
  have c2: "data_down_upstream ?cfg = Response 200 (JObj [(''destinationConfiguration'', ?dc)])"
    by (simp add: data_down_upstream_def config_request_def)
  have c3: "data_down_upstream (data_request
              (replace_trailing_slash ''https://x'' @ ''/'' @ ''Orders'' @ ''?$format=json''))
            = Response 500 (JObj [(''error'', JStr ''boom'')])"
    by (simp add: data_down_upstream_def data_request_def)
  have c4: "fetchODataEntity example_server Map.empty data_down_upstream ''Orders'' =
       (Inl ?e500,
        [token_request example_server, ?cfg,
         data_request (replace_trailing_slash ''https://x'' @ ''/'' @ ''Orders''
                       @ ''?$format=json'')])"
    by (rule Tc [THEN conjunct2, THEN conjunct2, THEN conjunct2, THEN conjunct2, THEN mp, OF c1,
          THEN conjunct2, THEN conjunct2, THEN mp, OF conjI [OF ok(1) conjI [OF ok(2) tok]],
          THEN conjunct2, THEN mp, OF c2,
          THEN conjunct2, THEN conjunct2, THEN mp, OF conjI [OF ok(1) conjI [OF ok(2) gdc]],
          THEN conjunct2, THEN conjunct2, THEN mp, OF gurl,
          THEN conjunct2, THEN mp, OF conjI [OF c3 n500]])
  have d3: "data_down_upstream (data_request ''https://x/Orders?$format=json'')
            = Response 500 (JObj [(''error'', JStr ''boom'')])"
    using c3 by (simp only: url)
  have d4: "fetchODataEntity example_server Map.empty data_down_upstream ''Orders'' =
       (Inl ?e500,
        [token_request example_server, ?cfg, data_request ''https://x/Orders?$format=json''])"
    using c4 by (simp only: url)
  have d5: "handle_get False example_server Map.empty data_down_upstream [''Orders''] =
       \<lparr>reply = \<lparr>res_status = 500, res_body = Sent ''Failed to fetch Orders''\<rparr>,
        logs = [ConsoleError [LStr ''Error in /Orders:'', LMessage ?e500],
                ConsoleError [LStr ''Remote error:'', LNum 500,
                  LJson (JObj [(''error'', JStr ''boom'')])]],
        calls = [token_request example_server, ?cfg,
                 data_request ''https://x/Orders?$format=json'']\<rparr>"
    using Tc [THEN conjunct1, THEN mp, OF d4,
        THEN conjunct2]
    by (simp add: remote_error_response orders_is_not_products)
  show ?thesis
    by (intro conjI) (fact h a1 n401 a2 a3 b1 tok b2 n403 b3 c1 c2 gdc gurl d3 n500 d4 d5)+
qed

text \<open>
  C6, as amended. \<^verbatim>\<open>getDestinationToken\<close> makes exactly one call, with no retry: a POST to
  the credentials' \<^verbatim>\<open>url\<close> followed by \<^verbatim>\<open>/oauth/token\<close>, with the form body
  \<^verbatim>\<open>grant_type=client_credentials\<close> and HTTP Basic auth from \<^verbatim>\<open>clientid\<close> and
  \<^verbatim>\<open>clientsecret\<close>. On a 2xx answer whose body is an object it returns the body's
  \<^verbatim>\<open>access_token\<close>, which is \<^verbatim>\<open>undefined\<close> when the body has no such field; on a 2xx answer
  whose body is a text it returns \<^verbatim>\<open>undefined\<close> too. It fails when the answer is not 2xx,
  when no answer arrives, and when the body is \<^verbatim>\<open>null\<close>.
\<close>

theorem token_acquirer_contract:
  "snd (getDestinationToken srv up) = [token_request srv]
   \<and> token_request srv =
       \<lparr>req_method = POST, req_url = url (destService srv) @ ''/oauth/token'',
        req_auth = Some (clientid (destService srv), clientsecret (destService srv)),
        req_headers = [], req_form = [(''grant_type'', ''client_credentials'')]\<rparr>
   \<and> (up (token_request srv) = Response st (JObj kvs) \<and> 200 \<le> st \<and> st < 300 \<longrightarrow>
        fst (getDestinationToken srv up) =
          Inr (case map_of kvs ''access_token'' of Some t \<Rightarrow> t | None \<Rightarrow> JUndefined))
   \<and> (up (token_request srv) = Response st JNull \<and> 200 \<le> st \<and> st < 300 \<longrightarrow>
        fst (getDestinationToken srv up) = Inl TypeError)
   \<and> (up (token_request srv) = Response st d \<and> \<not> (200 \<le> st \<and> st < 300) \<longrightarrow>
        fst (getDestinationToken srv up) = Inl (AxiosError (Some \<lparr>status = st, data = d\<rparr>)))
   \<and> (up (token_request srv) = NoResponse \<longrightarrow>
        fst (getDestinationToken srv up) = Inl (AxiosError None))
   \<and> (up (token_request srv) = Response st (JStr text) \<and> 200 \<le> st \<and> st < 300 \<longrightarrow>
        fst (getDestinationToken srv up) = Inr JUndefined)"
  by (simp add: token_calls token_2xx token_non_2xx token_no_response token_request_def)

text \<open>The theorem on upstreams that give a token, answer 401, and do not answer.\<close>

theorem token_acquirer_contract_witness:
  "destination_upstream example_token ''https://x'' example_rows (token_request example_server)
     = Response 200 (JObj [(''access_token'', JStr ''t0ken''), (''expires_in'', JNum ''43199'')])
   \<and> fst (getDestinationToken example_server
        (destination_upstream example_token ''https://x'' example_rows)) = Inr (JStr ''t0ken'')
   \<and> unauthorized_upstream (token_request example_server) = Response 401 (JStr ''Unauthorized'')
   \<and> fst (getDestinationToken example_server unauthorized_upstream)
       = Inl (AxiosError (Some \<lparr>status = 401, data = JStr ''Unauthorized''\<rparr>))
   \<and> unreachable_upstream (token_request example_server) = NoResponse
   \<and> fst (getDestinationToken example_server unreachable_upstream) = Inl (AxiosError None)"
proof -
  have a: "destination_upstream example_token ''https://x'' example_rows (token_request example_server)
     = Response 200 (JObj [(''access_token'', JStr ''t0ken''), (''expires_in'', JNum ''43199'')])"
    by (simp add: destination_upstream_def token_request_def example_token_def)
  have b: "unauthorized_upstream (token_request example_server) = Response 401 (JStr ''Unauthorized'')"
    by (simp add: unauthorized_upstream_def)
  have c: "unreachable_upstream (token_request example_server) = NoResponse"
    by (simp add: unreachable_upstream_def)
  from a token_acquirer_contract [where srv = example_server
      and up = "destination_upstream example_token ''https://x'' example_rows" and st = 200
      and kvs = "[(''access_token'', JStr ''t0ken''), (''expires_in'', JNum ''43199'')]"]
  have 1: "fst (getDestinationToken example_server
        (destination_upstream example_token ''https://x'' example_rows)) = Inr (JStr ''t0ken'')"
    by simp
  from b token_acquirer_contract [where srv = example_server and up = unauthorized_upstream
      and st = 401 and d = "JStr ''Unauthorized''"]
  have 2: "fst (getDestinationToken example_server unauthorized_upstream)
       = Inl (AxiosError (Some \<lparr>status = 401, data = JStr ''Unauthorized''\<rparr>))"
    by simp
  from c token_acquirer_contract [where srv = example_server and up = unreachable_upstream]
  have 3: "fst (getDestinationToken example_server unreachable_upstream) = Inl (AxiosError None)"
    by simp
  from a 1 b 2 c 3 show ?thesis by (simp only: simp_thms)
qed

text \<open>
  C6 as stated fails: a 2xx token answer whose body is \<^verbatim>\<open>{}\<close>, or a text that is not JSON, is
  not a failure. The helper returns \<^verbatim>\<open>undefined\<close>, the lookup is sent with
  \<^verbatim>\<open>Bearer undefined\<close>, and the chain succeeds if the upstreams go along.
\<close>

theorem token_body_without_field_is_no_failure:
  "getDestinationToken example_server (destination_upstream (JObj []) ''https://x'' example_rows)
     = (Inr JUndefined, [token_request example_server])
   \<and> getDestinationToken example_server
       (destination_upstream (JStr ''Bad Gateway'') ''https://x'' example_rows)
     = (Inr JUndefined, [token_request example_server])
   \<and> fst (fetchODataEntity example_server Map.empty
       (destination_upstream (JObj []) ''https://x'' example_rows) ''Products'') = Inr example_rows
   \<and> map req_headers (snd (fetchODataEntity example_server Map.empty
       (destination_upstream (JObj []) ''https://x'' example_rows) ''Products''))
     = [[], [(''Authorization'', ''Bearer undefined'')], []]"
proof -
  have t1: "getDestinationToken example_server (destination_upstream (JObj []) ''https://x'' example_rows)
     = (Inr JUndefined, [token_request example_server])"
    by (simp add: getDestinationToken_def axios_def destination_upstream_def token_request_def)
  have t2: "getDestinationToken example_server
       (destination_upstream (JStr ''Bad Gateway'') ''https://x'' example_rows)
     = (Inr JUndefined, [token_request example_server])"
    by (simp add: getDestinationToken_def axios_def destination_upstream_def token_request_def)
  have u: "get_prop (JObj [(''Name'', JStr ''Products''), (''URL'', JStr ''https://x'')]) ''URL''
     = Inr (JStr ''https://x'')" by simp
  have a: "axios (destination_upstream (JObj []) ''https://x'' example_rows)
             (data_request (odataUrl (replace_trailing_slash ''https://x'') ''Products''))
           = Inr \<lparr>status = 200, data = example_rows\<rparr>"
    by (simp add: axios_def destination_upstream_def data_request_def)
  have "fetchODataEntity example_server Map.empty
       (destination_upstream (JObj []) ''https://x'' example_rows) ''Products''
     = (Inr example_rows,
        [token_request example_server, config_request example_server Map.empty JUndefined,
         data_request (odataUrl (replace_trailing_slash ''https://x'') ''Products'')])"
    using fetch_data_call [OF t1 example_config_resolved u, of Map.empty "''Products''"]
    by (simp only: a) simp
  then have "fst (fetchODataEntity example_server Map.empty
       (destination_upstream (JObj []) ''https://x'' example_rows) ''Products'') = Inr example_rows"
    and "map req_headers (snd (fetchODataEntity example_server Map.empty
       (destination_upstream (JObj []) ''https://x'' example_rows) ''Products''))
     = [[], [(''Authorization'', ''Bearer undefined'')], []]"
    by (simp_all add: token_request_def config_request_def data_request_def)
  with t1 t2 show ?thesis by (simp only: simp_thms)
qed



text \<open>
  C8, as amended. When \<^verbatim>\<open>xsenv.loadEnv\<close> has returned and \<^verbatim>\<open>xsenv.getServices\<close> finds no
  destination binding, startup logs one error and the process exits with status 1 without
  ever listening, so every later request goes unanswered. It is not the only way the
  process ends: it also ends at startup, by an uncaught error, when \<^verbatim>\<open>xsenv.loadEnv\<close> throws
  and when the binding is there but \<^verbatim>\<open>app.listen\<close> cannot bind the port (a port out of
  range, or one the host does not let it bind). These are all:
  after startup and any requests, the process has exited, has been ended by an uncaught
  error, or is listening, exactly as startup left it, and no request ends it.
\<close>

theorem only_startup_failures_are_fatal:
  "(loadEnv_returns h \<and> getServices h = None \<longrightarrow>
      startup env h = (Exited 1, [ConsoleError [LStr not_found_text]]))
   \<and> run cs (Exited 1) evs = (Exited 1, replicate (length evs) None)
   \<and> run cs Crashed evs = (Crashed, replicate (length evs) None)
   \<and> (fst (run cs (fst (startup env h)) evs) = Exited code
        \<longleftrightarrow> loadEnv_returns h \<and> getServices h = None \<and> code = 1)
   \<and> (fst (run cs (fst (startup env h)) evs) = Crashed
        \<longleftrightarrow> \<not> loadEnv_returns h
            \<or> (getServices h \<noteq> None \<and> \<not> app_listen h (read_PORT env)))
   \<and> (fst (run cs (fst (startup env h)) evs) = Listening srv
        \<longleftrightarrow> loadEnv_returns h \<and> getServices h = Some (destService srv)
            \<and> app_listen h (read_PORT env) \<and> PORT srv = read_PORT env)"
proof -
  have srv: "\<And>dest port. (\<lparr>destService = dest, PORT = port\<rparr> = srv)
               = (dest = destService srv \<and> PORT srv = port)"
    by (cases srv) auto
  have 1: "loadEnv_returns h \<and> getServices h = None \<longrightarrow>
      startup env h = (Exited 1, [ConsoleError [LStr not_found_text]])"
    by (simp add: startup_def Let_def)
  have 4: "fst (run cs (fst (startup env h)) evs) = Exited code
        \<longleftrightarrow> loadEnv_returns h \<and> getServices h = None \<and> code = 1"
    by (cases "getServices h")
       (auto simp add: startup_cases run_exited run_crashed run_listening)
  have 5: "fst (run cs (fst (startup env h)) evs) = Crashed
        \<longleftrightarrow> \<not> loadEnv_returns h
            \<or> (getServices h \<noteq> None \<and> \<not> app_listen h (read_PORT env))"
    by (cases "getServices h")
       (auto simp add: startup_cases run_exited run_crashed run_listening)
  have 6: "fst (run cs (fst (startup env h)) evs) = Listening srv
        \<longleftrightarrow> loadEnv_returns h \<and> getServices h = Some (destService srv)
            \<and> app_listen h (read_PORT env) \<and> PORT srv = read_PORT env"
    by (cases "getServices h")
       (auto simp add: startup_cases run_exited run_crashed run_listening srv)
  from 1 run_exited [of cs 1 evs] run_crashed [of cs evs] 4 5 6 show ?thesis
    by (intro conjI)
qed

text \<open>The theorem on a host without a binding and on one with it.\<close>

theorem only_startup_failures_are_fatal_witness:
  "loadEnv_returns unbound_host \<and> getServices unbound_host = None
   \<and> startup Map.empty unbound_host = (Exited 1, [ConsoleError [LStr not_found_text]])
   \<and> run False (Exited 1) [example_event, example_event] = (Exited 1, [None, None])
   \<and> fst (run False (fst (startup Map.empty unbound_host)) [example_event]) = Exited 1
   \<and> loadEnv_returns example_host
   \<and> getServices example_host = Some (destService example_server)
   \<and> app_listen example_host (read_PORT Map.empty)
   \<and> PORT example_server = read_PORT Map.empty
   \<and> fst (run False (fst (startup Map.empty example_host)) [example_event])
       = Listening example_server"
proof -
  note T = only_startup_failures_are_fatal
  have a: "loadEnv_returns unbound_host" and b: "getServices unbound_host = None"
    by (simp_all add: unbound_host_def)
  have c: "startup Map.empty unbound_host = (Exited 1, [ConsoleError [LStr not_found_text]])"
    by (rule T [where h = unbound_host, THEN conjunct1, THEN mp, OF conjI [OF a b]])
  have d: "run False (Exited 1) [example_event, example_event] = (Exited 1, [None, None])"
    using T [where cs = False and evs = "[example_event, example_event]",
        THEN conjunct2, THEN conjunct1]
    by simp
  have e: "fst (run False (fst (startup Map.empty unbound_host)) [example_event]) = Exited 1"
    using T [where h = unbound_host and env = Map.empty and cs = False
        and evs = "[example_event]" and code = 1,
        THEN conjunct2, THEN conjunct2, THEN conjunct2, THEN conjunct1] a b
    by simp
  have f: "loadEnv_returns example_host"
    and g: "getServices example_host = Some (destService example_server)"
    by (simp_all add: example_host_def example_credentials_def)
  have p: "read_PORT Map.empty = JNum ''5000''" by (simp add: read_PORT_def)
  have i: "app_listen example_host (read_PORT Map.empty)"
    unfolding p by (simp add: example_host_def default_port_listens)
  have j: "PORT example_server = read_PORT Map.empty"
    unfolding p by (simp add: example_server_def)
  have k: "fst (run False (fst (startup Map.empty example_host)) [example_event])
       = Listening example_server"
    using T [where h = example_host and env = Map.empty and cs = False
        and evs = "[example_event]" and srv = example_server,
        THEN conjunct2, THEN conjunct2, THEN conjunct2, THEN conjunct2, THEN conjunct2] f g i j
    by simp
  show ?thesis
    by (intro conjI) (fact a b c d e f g i j k)+
qed

text \<open>
  C8 as stated fails: with the destination binding in place the process still ends at
  startup, and serves nothing, when \<^verbatim>\<open>PORT\<close> is 99999 and when the port is already in use.
\<close>

theorem bound_process_can_end_at_startup:
  "getServices example_host = Some example_credentials
   \<and> startup big_port_env example_host = (Crashed, [])
   \<and> run False (fst (startup big_port_env example_host)) [example_event] = (Crashed, [None])
   \<and> getServices busy_host = Some example_credentials
   \<and> startup Map.empty busy_host = (Crashed, [])"
proof -
  have p: "read_PORT big_port_env = JStr ''99999''"
    by (simp add: read_PORT_def big_port_env_def)
  have q: "read_PORT Map.empty = JNum ''5000''" by (simp add: read_PORT_def)
  have a: "startup big_port_env example_host = (Crashed, [])"
    by (simp add: startup_def p example_host_def big_port_never_listens)
  have b: "startup Map.empty busy_host = (Crashed, [])"
    by (simp add: startup_def q busy_host_def default_port_listens)
  have g1: "getServices example_host = Some example_credentials"
    by (simp add: example_host_def)
  have g2: "getServices busy_host = Some example_credentials"
    by (simp add: busy_host_def)
  have r: "run False (fst (startup big_port_env example_host)) [example_event] = (Crashed, [None])"
    by (simp add: a)
  show ?thesis
    by (intro conjI) (fact g1 a r g2 b)+
qed

text \<open>
  C9. A request \<^verbatim>\<open>GET /\<close> makes no outbound call (no token exchange, no destination
  lookup, no data fetch) and logs nothing; its reply is always status 200 with one fixed
  text, whatever the server, the environment and the upstreams are.
\<close>

theorem root_is_static:
  "handle_get cs srv env up [] =
     \<lparr>reply = \<lparr>res_status = 200, res_body = Sent root_text\<rparr>, logs = [], calls = []\<rparr>"
  by (simp add: route_root root_route_def)

text \<open>
  C10, as amended. For a server started on a host with credentials \<open>creds\<close> in an
  environment \<open>env0\<close>: the credentials stay those of startup over any run of requests, and the
  destination lookup of a request handled in environment \<open>env\<close> goes to the name that
  \<open>env\<close> gives, not \<open>env0\<close>: the value of \<^verbatim>\<open>DESTINATION_NAME\<close> when it is set and not
  empty, \<^verbatim>\<open>Products\<close> when it is unset or empty. Two requests under different non-empty
  names look up different destinations.
\<close>

theorem destination_name_is_read_per_request:
  assumes "getServices h = Some creds" and "fst (startup env0 h) = Listening srv"
  shows "destService srv = creds
       \<and> fst (run cs (Listening srv) evs) = Listening srv
       \<and> snd (getDestinationConfig srv env up tok) = [config_request srv env tok]
       \<and> req_url (config_request srv env tok) =
           uri creds @ ''/destination-configuration/v1/destinations/''
           @ (case env ''DESTINATION_NAME'' of
                None \<Rightarrow> ''Products''
              | Some v \<Rightarrow> if v = [] then ''Products'' else v)
       \<and> (getDestinationToken srv up = (Inr tok, c1) \<longrightarrow>
            take 2 (snd (fetchODataEntity srv env up entity)) =
              [token_request srv, config_request srv env tok])
       \<and> (env ''DESTINATION_NAME'' = Some v \<and> v \<noteq> [] \<and> env' ''DESTINATION_NAME'' = Some w
            \<and> w \<noteq> [] \<and> v \<noteq> w \<longrightarrow>
            req_url (config_request srv env tok) \<noteq> req_url (config_request srv env' tok))"
  using startup_bound [OF assms(2)] assms(1)
  by (simp add: run_listening config_calls fetch_second_call config_request_def
      destinationName_def)

text \<open>
  The theorem for a server started without \<^verbatim>\<open>DESTINATION_NAME\<close> and a request handled
  when it is \<^verbatim>\<open>Northwind\<close>.
\<close>

theorem destination_name_is_read_per_request_witness:
  "getServices example_host = Some example_credentials
   \<and> fst (startup Map.empty example_host) = Listening example_server
   \<and> destService example_server = example_credentials
   \<and> req_url (config_request example_server runtime_env (JStr ''t0ken''))
       = ''https://dest.example/destination-configuration/v1/destinations/Northwind''
   \<and> req_url (config_request example_server Map.empty (JStr ''t0ken''))
       = ''https://dest.example/destination-configuration/v1/destinations/Products''
   \<and> getDestinationToken example_server
        (destination_upstream example_token ''https://x'' example_rows)
       = (Inr (JStr ''t0ken''), [token_request example_server])
   \<and> take 2 (snd (fetchODataEntity example_server runtime_env
        (destination_upstream example_token ''https://x'' example_rows) ''Orders''))
       = [token_request example_server, config_request example_server runtime_env (JStr ''t0ken'')]"
proof -
  have b: "getServices example_host = Some example_credentials"
    by (simp add: example_host_def)
  have h: "fst (startup Map.empty example_host) = Listening example_server"
    by (simp add: startup_cases read_PORT_def example_host_def default_port_listens
        example_credentials_def example_server_def)
  note T = destination_name_is_read_per_request [OF b h]
  have c: "destService example_server = example_credentials"
    by (rule T [THEN conjunct1])
  have u: "uri example_credentials = ''https://dest.example''"
    by (simp add: example_credentials_def example_server_def)
  have r: "runtime_env ''DESTINATION_NAME'' = Some ''Northwind''"
    by (simp add: runtime_env_def)
  have n: "req_url (config_request example_server runtime_env (JStr ''t0ken''))
       = ''https://dest.example/destination-configuration/v1/destinations/Northwind''"
    using T [where env = runtime_env and tok = "JStr ''t0ken''", THEN conjunct2, THEN conjunct2,
        THEN conjunct2, THEN conjunct1]
    by (simp add: u r)
  have p: "req_url (config_request example_server Map.empty (JStr ''t0ken''))
       = ''https://dest.example/destination-configuration/v1/destinations/Products''"
    using T [where env = Map.empty and tok = "JStr ''t0ken''", THEN conjunct2, THEN conjunct2,
        THEN conjunct2, THEN conjunct1]
    by (simp add: u)
  have t: "getDestinationToken example_server
        (destination_upstream example_token ''https://x'' example_rows)
       = (Inr (JStr ''t0ken''), [token_request example_server])"
    by (rule example_token_acquired)
  have s: "take 2 (snd (fetchODataEntity example_server runtime_env
        (destination_upstream example_token ''https://x'' example_rows) ''Orders''))
       = [token_request example_server, config_request example_server runtime_env (JStr ''t0ken'')]"
    by (rule T [where env = runtime_env
          and up = "destination_upstream example_token ''https://x'' example_rows",
          THEN conjunct2, THEN conjunct2, THEN conjunct2, THEN conjunct2, THEN conjunct1,
          THEN mp, OF t])
  show ?thesis
    by (intro conjI) (fact b h c n p t s)+
qed

text \<open>
  C10 as stated fails: when \<^verbatim>\<open>DESTINATION_NAME\<close> is set to the empty string, the lookup
  goes to \<^verbatim>\<open>Products\<close>, not to the variable's value.
\<close>

theorem empty_destination_name_is_not_used:
  "empty_name_env ''DESTINATION_NAME'' = Some []
   \<and> map req_url (snd (getDestinationConfig example_server empty_name_env unreachable_upstream
        (JStr ''t0ken'')))
     = [''https://dest.example/destination-configuration/v1/destinations/Products'']"
  by (simp add: empty_name_env_def config_calls config_request_def destinationName_def
      example_server_def)

end
